theory Spec2Isabelle
  imports Main
begin

section \<open>BART sequence-to-sequence language model: cached decoding and generation\<close>

text \<open>
  A shallow embedding of \<^verbatim>\<open>keras_nlp/models/bart/bart_seq_2_seq_lm.py\<close>.

  Dense tensors are rectangular nested lists, the outermost list being axis 0 (the batch
  axis): a tensor of shape \<open>[B, L]\<close> is a list of \<open>B\<close> rows of length \<open>L\<close>. The static inner
  dimensions of a tensor whose batch dimension is \<open>0\<close> are not represented. The elements of
  the floating-point tensors (embeddings, hidden states, logits, key/value caches) are of
  an arbitrary numeric type \<open>'a\<close>; token ids and indices are integers. The layers of the
  backbone are external to this file of the program: they are the fields of a record of
  functions, the forward passes in inference mode. An exception of the Python program is
  the \<open>Inl\<close> branch of a result. A method that assigns to an attribute of \<open>self\<close> returns
  the new object. The leading underscore of a Python name is dropped: \<open>build_cache\<close> is
  \<^verbatim>\<open>_build_cache\<close>, the field \<open>sampler\<close> is \<^verbatim>\<open>self._sampler\<close>.
\<close>

subsection \<open>Tensors and the TensorFlow operations used\<close>

type_synonym 'a tensor2 = "'a list list"
type_synonym 'a tensor3 = "'a list list list"
type_synonym 'a tensor5 = "'a list list list list list"
type_synonym 'a tensor6 = "'a list list list list list list"

datatype error =
    IndexError | KeyError | TypeError | ValueError | ZeroDivisionError | InvalidArgumentError

text \<open>
  \<^verbatim>\<open>tf.unstack(t, axis=1)\<close>: the list of the slices \<open>t[:, i]\<close>. For a rectangular tensor
  of shape \<open>[B, N, ...]\<close> with \<open>B > 0\<close> these are \<open>N\<close> tensors of shape \<open>[B, ...]\<close>.
\<close>

definition tf_unstack_axis1 :: "'b list list \<Rightarrow> 'b list list" where
  "tf_unstack_axis1 t = transpose t"

text \<open>
  \<^verbatim>\<open>tf.stack(ts, axis=1)\<close>: the tensors of the list become the slices \<open>[:, i]\<close> of the
  result. TensorFlow reads \<^verbatim>\<open>values[0]\<close> first (an \<^verbatim>\<open>IndexError\<close> on the empty list) and
  rejects tensors of different shapes; the shapes are compared on axis 0 here.
\<close>

definition tf_stack_axis1 :: "'b list list \<Rightarrow> error + 'b list list" where
  "tf_stack_axis1 ts =
     (case ts of
        [] \<Rightarrow> Inl IndexError
      | t # _ \<Rightarrow>
          if list_all (\<lambda>u. length u = length t) ts then Inr (transpose ts)
          else Inl InvalidArgumentError)"

text \<open>
  \<^verbatim>\<open>tf.matmul(x, e, transpose_b=True)\<close> for \<open>x\<close> of shape \<open>[B, W, H]\<close> and \<open>e\<close> of shape
  \<open>[V, H]\<close>: the result has shape \<open>[B, W, V]\<close>; the contracted dimensions must agree.
\<close>

definition tf_matmul_transpose_b ::
  "('a::semiring_0) tensor3 \<Rightarrow> 'a tensor2 \<Rightarrow> error + 'a tensor3" where
  "tf_matmul_transpose_b x e =
     (if list_all (list_all (\<lambda>v. list_all (\<lambda>w. length v = length w) e)) x
      then Inr (map (map (\<lambda>v. map (\<lambda>w. sum_list (map2 (*) v w)) e)) x)
      else Inl InvalidArgumentError)"

subsection \<open>The backbone and the model object\<close>

record 'a bart_backbone =
  num_layers :: nat
  num_heads :: nat
  hidden_dim :: nat
  token_embedding :: "int tensor2 \<Rightarrow> 'a tensor3"
  token_embedding_embeddings :: "'a tensor2"
  encoder_position_embedding :: "'a tensor3 \<Rightarrow> 'a tensor3"
  encoder_embeddings_add :: "'a tensor3 \<times> 'a tensor3 \<Rightarrow> 'a tensor3"
  encoder_embeddings_layer_norm :: "'a tensor3 \<Rightarrow> 'a tensor3"
  encoder_embeddings_dropout :: "'a tensor3 \<Rightarrow> 'a tensor3"
  transformer_encoder_layer :: "nat \<Rightarrow> 'a tensor3 \<Rightarrow> bool tensor2 \<Rightarrow> 'a tensor3"
  decoder_position_embedding :: "'a tensor3 \<Rightarrow> int option \<Rightarrow> 'a tensor3"
  decoder_embeddings_add :: "'a tensor3 \<times> 'a tensor3 \<Rightarrow> 'a tensor3"
  decoder_embeddings_layer_norm :: "'a tensor3 \<Rightarrow> 'a tensor3"
  decoder_embeddings_dropout :: "'a tensor3 \<Rightarrow> 'a tensor3"
  transformer_decoder_layer ::
    "nat \<Rightarrow> 'a tensor3 \<Rightarrow> 'a tensor3 \<Rightarrow> bool tensor2 \<Rightarrow> 'a tensor5 \<Rightarrow> int option \<Rightarrow>
     'a tensor5 \<Rightarrow> int option \<Rightarrow> 'a tensor3 \<times> 'a tensor5 \<times> 'a tensor5"

text \<open>
  The arguments of the sampling strategy \<^verbatim>\<open>self._sampler\<close>, in the order of the call in
  \<^verbatim>\<open>generate_step\<close>: \<open>next\<close>, \<open>prompt\<close>, \<open>cache\<close>, \<open>index\<close>, \<open>mask\<close>, \<open>end_token_id\<close>,
  \<open>hidden_states\<close>. The sampler is external: it drives \<open>next\<close> and returns the completed
  token ids, or the exception that stopped it.
\<close>

type_synonym 'a next_fn =
  "int tensor2 \<Rightarrow> 'a tensor6 \<Rightarrow> int \<Rightarrow> error + 'a tensor2 \<times> 'a tensor2 \<times> 'a tensor6"

type_synonym 'a sampler_fn =
  "'a next_fn \<Rightarrow> int tensor2 \<Rightarrow> 'a tensor6 \<Rightarrow> int \<Rightarrow> bool tensor2 \<Rightarrow> int option \<Rightarrow>
   'a tensor3 \<Rightarrow> error + int tensor2"

text \<open>
  The dictionary \<^verbatim>\<open>generate_step\<close> is given, of four batched tensors, and the dictionary it
  returns, of two. The padding masks are boolean tensors.
\<close>

record generate_inputs =
  encoder_token_ids :: "int tensor2"
  encoder_padding_mask :: "bool tensor2"
  decoder_token_ids :: "int tensor2"
  decoder_padding_mask :: "bool tensor2"

record generate_outputs =
  decoder_token_ids :: "int tensor2"
  decoder_padding_mask :: "bool tensor2"

text \<open>
  Values of the \<open>generate\<close> interface. A tensor of any rank is a nested array of elements
  with its dtype; rank 0 is a single element.
\<close>

datatype dtype = TF_string | TF_int32 | TF_bool | TF_float32

datatype elem = S string | I int | B bool

datatype nd = Elem elem | Arr "nd list"

datatype tensor = Tensor (dtype: dtype) (data: nd)

text \<open>
  The inputs \<open>generate\<close> documents: a string, a list, a \<^verbatim>\<open>tf.Tensor\<close>, a dictionary of
  these, or a \<^verbatim>\<open>tf.data.Dataset\<close> (the sequence of its batches).
\<close>

datatype pyval =
    PyStr string
  | PyList "pyval list"
  | PyTensor tensor
  | PyDict "(string \<times> pyval) list"
  | PyDataset "pyval list"

text \<open>What \<open>generate\<close> returns: Python strings and lists of them, numpy arrays, or a
  dictionary of two of these.\<close>

datatype host =
    HostStr string
  | HostList "host list"
  | HostNdarray tensor
  | HostDict "(string \<times> host) list"

text \<open>One batch of generated output: the dictionary \<open>generate_step\<close> returns, or the
  string tensor the preprocessor made of it.\<close>

datatype batch_output = OutDict generate_outputs | OutTensor tensor

text \<open>
  The preprocessor is external. \<open>end_token_id\<close> stands for
  \<^verbatim>\<open>preprocessor.tokenizer.end_token_id\<close>.
\<close>

record bart_preprocessor =
  generate_preprocess :: "pyval \<Rightarrow> int option \<Rightarrow> error + generate_inputs"
  generate_postprocess :: "generate_outputs \<Rightarrow> error + tensor"
  end_token_id :: "int option"

text \<open>
  The handle stored in \<^verbatim>\<open>self.generate_function\<close>: the bound method
  \<^verbatim>\<open>self.generate_step\<close>, or \<^verbatim>\<open>tf.function(self.generate_step, jit_compile=j)\<close>.
\<close>

datatype generate_fn = Generate_step | Tf_function bool

text \<open>
  The model object \<open>self\<close>. \<open>jit_compile\<close> is \<open>None\<close> where the attribute does not exist
  (before TensorFlow 2.12). The training configuration that \<^verbatim>\<open>compile\<close> forwards to
  \<^verbatim>\<open>keras.Model.compile\<close> (loss, optimizer, metrics) is not part of the state modelled.
\<close>

record 'a bart_seq_2_seq_lm =
  backbone :: "'a bart_backbone"
  preprocessor :: "bart_preprocessor option"
  generate_function :: "generate_fn option"
  sampler :: "'a sampler_fn"
  run_eagerly :: bool
  jit_compile :: "bool option"

subsection \<open>\<^verbatim>\<open>call_decoder_with_cache\<close>\<close>

text \<open>
  The loop over the decoder layers (lines 312--333), on the list of layer indices. Reading
  \<^verbatim>\<open>self_attention_caches[i]\<close> beyond the unstacked list raises \<^verbatim>\<open>IndexError\<close>.
\<close>

fun decoder_layers ::
  "'a bart_backbone \<Rightarrow> 'a tensor3 \<Rightarrow> bool tensor2 \<Rightarrow> int option \<Rightarrow> int option \<Rightarrow> nat list \<Rightarrow>
   'a tensor3 \<times> 'a tensor5 list \<times> 'a tensor5 list \<Rightarrow>
   error + 'a tensor3 \<times> 'a tensor5 list \<times> 'a tensor5 list" where
  "decoder_layers bb enc em si ci [] st = Inr st"
| "decoder_layers bb enc em si ci (i # js) (x, scs, ccs) =
     (if length scs \<le> i then Inl IndexError
      else if length ccs \<le> i then Inl IndexError
      else
        (case transformer_decoder_layer bb i x enc em (scs ! i) si (ccs ! i) ci of
           (x', next_sc, next_cc) \<Rightarrow>
             decoder_layers bb enc em si ci js
               (x',
                if si \<noteq> None then scs[i := next_sc] else scs,
                if ci \<noteq> None then ccs[i := next_cc] else ccs)))"

text \<open>
  The two caches default to \<^verbatim>\<open>None\<close> in the source, which \<^verbatim>\<open>tf.unstack\<close> rejects. The
  result is \<open>(logits, hidden_states, self_attention_cache, cross_attention_cache)\<close>.
\<close>

definition call_decoder_with_cache ::
  "('a::semiring_0) bart_seq_2_seq_lm \<Rightarrow> 'a tensor3 \<Rightarrow> bool tensor2 \<Rightarrow> int tensor2 \<Rightarrow>
   'a tensor6 option \<Rightarrow> int option \<Rightarrow> 'a tensor6 option \<Rightarrow> int option \<Rightarrow>
   error + 'a tensor3 \<times> 'a tensor3 \<times> 'a tensor6 \<times> 'a tensor6" where
  "call_decoder_with_cache self encoder_hidden_states enc_padding_mask dec_token_ids
       self_attention_cache self_attention_cache_update_index
       cross_attention_cache cross_attention_cache_update_index =
     (let bb = backbone self;
          token_emb = token_embedding bb dec_token_ids;
          position_emb = decoder_position_embedding bb token_emb self_attention_cache_update_index;
          x = decoder_embeddings_add bb (token_emb, position_emb);
          x = decoder_embeddings_layer_norm bb x;
          x = decoder_embeddings_dropout bb x
      in
      case self_attention_cache of
        None \<Rightarrow> Inl ValueError
      | Some sc \<Rightarrow>
      (case cross_attention_cache of
        None \<Rightarrow> Inl ValueError
      | Some cc \<Rightarrow>
      (case decoder_layers bb encoder_hidden_states enc_padding_mask
              self_attention_cache_update_index cross_attention_cache_update_index
              [0..<num_layers bb] (x, tf_unstack_axis1 sc, tf_unstack_axis1 cc) of
        Inl e \<Rightarrow> Inl e
      | Inr (x, scs, ccs) \<Rightarrow>
      (case (if self_attention_cache_update_index \<noteq> None then tf_stack_axis1 scs else Inr sc) of
        Inl e \<Rightarrow> Inl e
      | Inr sc' \<Rightarrow>
      (case (if cross_attention_cache_update_index \<noteq> None then tf_stack_axis1 ccs else Inr cc) of
        Inl e \<Rightarrow> Inl e
      | Inr cc' \<Rightarrow>
      (case tf_matmul_transpose_b x (token_embedding_embeddings bb) of
        Inl e \<Rightarrow> Inl e
      | Inr logits \<Rightarrow> Inr (logits, x, sc', cc')))))))"

subsection \<open>\<^verbatim>\<open>call_encoder\<close>, \<^verbatim>\<open>_initialize_cache\<close>, \<^verbatim>\<open>_build_cache\<close>\<close>

definition call_encoder ::
  "'a bart_seq_2_seq_lm \<Rightarrow> int tensor2 \<Rightarrow> bool tensor2 \<Rightarrow> 'a tensor3" where
  "call_encoder self token_ids padding_mask =
     (let bb = backbone self;
          token_emb = token_embedding bb token_ids;
          position_emb = encoder_position_embedding bb token_emb;
          x = encoder_embeddings_add bb (token_emb, position_emb);
          x = encoder_embeddings_layer_norm bb x;
          x = encoder_embeddings_dropout bb x
      in fold (\<lambda>i x. transformer_encoder_layer bb i x padding_mask) [0..<num_layers bb] x)"

text \<open>\<^verbatim>\<open>tf.shape(t)[1]\<close> of a tensor of rank 2.\<close>

definition tf_shape1 :: "'b tensor2 \<Rightarrow> nat" where
  "tf_shape1 t = (case t of [] \<Rightarrow> 0 | row # _ \<Rightarrow> length row)"

text \<open>\<^verbatim>\<open>tf.zeros\<close> of a shape of six dimensions.\<close>

definition tf_zeros6 :: "nat \<Rightarrow> nat \<Rightarrow> nat \<Rightarrow> nat \<Rightarrow> nat \<Rightarrow> nat \<Rightarrow> ('a::zero) tensor6" where
  "tf_zeros6 d0 d1 d2 d3 d4 d5 =
     replicate d0 (replicate d1 (replicate d2 (replicate d3 (replicate d4 (replicate d5 0)))))"

text \<open>\<^verbatim>\<open>hidden_dim // num_heads\<close> on Python integers raises \<^verbatim>\<open>ZeroDivisionError\<close>.\<close>

definition initialize_cache ::
  "('a::semiring_0) bart_seq_2_seq_lm \<Rightarrow> int tensor2 \<Rightarrow> int tensor2 \<Rightarrow>
   error + 'a tensor6 \<times> 'a tensor6" where
  "initialize_cache self enc_token_ids dec_token_ids =
     (let batch_size = length enc_token_ids;
          encoder_max_length = tf_shape1 enc_token_ids;
          decoder_max_length = tf_shape1 dec_token_ids;
          n_layers = num_layers (backbone self);
          n_heads = num_heads (backbone self)
      in if n_heads = 0 then Inl ZeroDivisionError
         else
           (let head_dim = hidden_dim (backbone self) div n_heads
            in Inr (tf_zeros6 batch_size n_layers 2 decoder_max_length n_heads head_dim,
                    tf_zeros6 batch_size n_layers 2 encoder_max_length n_heads head_dim)))"

text \<open>The result is \<open>(hidden_states, encoder_hidden_states, self_attention_cache,
  cross_attention_cache)\<close>.\<close>

definition build_cache ::
  "('a::semiring_0) bart_seq_2_seq_lm \<Rightarrow> int tensor2 \<Rightarrow> bool tensor2 \<Rightarrow> int tensor2 \<Rightarrow>
   error + 'a tensor3 \<times> 'a tensor3 \<times> 'a tensor6 \<times> 'a tensor6" where
  "build_cache self enc_token_ids enc_padding_mask dec_token_ids =
     (let encoder_hidden_states = call_encoder self enc_token_ids enc_padding_mask
      in case initialize_cache self enc_token_ids dec_token_ids of
           Inl e \<Rightarrow> Inl e
         | Inr (self_attention_cache, cross_attention_cache) \<Rightarrow>
             (case call_decoder_with_cache self encoder_hidden_states enc_padding_mask
                     dec_token_ids (Some self_attention_cache) (Some 0)
                     (Some cross_attention_cache) (Some 0) of
                Inl e \<Rightarrow> Inl e
              | Inr (_, hidden_states, self_attention_cache, cross_attention_cache) \<Rightarrow>
                  Inr (hidden_states, encoder_hidden_states, self_attention_cache,
                       cross_attention_cache)))"

subsection \<open>\<^verbatim>\<open>generate_step\<close>\<close>

text \<open>Arithmetic on \<^verbatim>\<open>int32\<close> tensors wraps around in two's complement.\<close>

definition int32 :: "int \<Rightarrow> int" where
  "int32 k = signed_take_bit 31 k"

text \<open>
  \<^verbatim>\<open>tf.slice(t, [0, j], [-1, 1])\<close>: column \<open>j\<close> of every row, as a tensor of shape \<open>[B, 1]\<close>.
  The slice must lie inside the tensor: the kernel of the operation rejects a start that
  is negative or beyond the row with \<^verbatim>\<open>InvalidArgumentError\<close>. This is the operation as
  it runs eagerly and in a graph; a function compiled with XLA clamps the start into the
  row instead, which is outside this model.
\<close>

definition tf_slice_column :: "'b tensor2 \<Rightarrow> int \<Rightarrow> error + 'b tensor2" where
  "tf_slice_column t j =
     (if 0 \<le> j \<and> list_all (\<lambda>row. nat j < length row) t
      then Inr (map (\<lambda>row. [row ! nat j]) t)
      else Inl InvalidArgumentError)"

text \<open>\<^verbatim>\<open>tf.squeeze(t, axis=1)\<close>: axis 1 must have dimension 1.\<close>

definition tf_squeeze_axis1 :: "'b list list \<Rightarrow> error + 'b list" where
  "tf_squeeze_axis1 t =
     (if list_all (\<lambda>row. length row = 1) t then Inr (map hd t)
      else Inl InvalidArgumentError)"

text \<open>\<^verbatim>\<open>tf.repeat(t, repeats=r, axis=0)\<close>.\<close>

definition tf_repeat_axis0 :: "'b list \<Rightarrow> nat \<Rightarrow> 'b list" where
  "tf_repeat_axis0 t r = concat (map (replicate r) t)"

text \<open>
  The inner function \<^verbatim>\<open>repeat_tensor\<close> of \<^verbatim>\<open>next\<close>, with the variables it closes over
  (\<open>batch_size\<close>, \<open>num_samples\<close>) as arguments. The integer division of tensors by zero is
  an error.
\<close>

definition repeat_tensor :: "nat \<Rightarrow> nat \<Rightarrow> 'b list \<Rightarrow> error + 'b list" where
  "repeat_tensor batch_size num_samples x =
     (if length x = num_samples then Inr x
      else if batch_size = 0 then Inl InvalidArgumentError
      else Inr (tf_repeat_axis0 x (num_samples div batch_size)))"

text \<open>
  The closure \<^verbatim>\<open>next\<close> of \<^verbatim>\<open>generate_step\<close> (lines 523--549). The variables it closes
  over come first: \<open>self\<close>, \<open>batch_size\<close>, \<open>encoder_hidden_states\<close>,
  \<open>encoder_padding_mask\<close>, \<open>cross_attention_cache\<close>.
\<close>

definition generate_step_next ::
  "('a::semiring_0) bart_seq_2_seq_lm \<Rightarrow> nat \<Rightarrow> 'a tensor3 \<Rightarrow> bool tensor2 \<Rightarrow> 'a tensor6 \<Rightarrow>
   'a next_fn" where
  "generate_step_next self batch_size encoder_hidden_states enc_padding_mask
       cross_attention_cache prompt cache index =
     (let cache_index = index - 1 in
      case tf_slice_column prompt cache_index of
        Inl e \<Rightarrow> Inl e
      | Inr prompt \<Rightarrow>
      (let num_samples = length prompt in
       case repeat_tensor batch_size num_samples encoder_hidden_states of
         Inl e \<Rightarrow> Inl e
       | Inr enc \<Rightarrow>
       (case repeat_tensor batch_size num_samples enc_padding_mask of
         Inl e \<Rightarrow> Inl e
       | Inr em \<Rightarrow>
       (case repeat_tensor batch_size num_samples cross_attention_cache of
         Inl e \<Rightarrow> Inl e
       | Inr cc \<Rightarrow>
       (case call_decoder_with_cache self enc em prompt (Some cache) (Some cache_index)
               (Some cc) None of
         Inl e \<Rightarrow> Inl e
       | Inr (logits, hidden_states, cache, _) \<Rightarrow>
       (case tf_squeeze_axis1 logits of
         Inl e \<Rightarrow> Inl e
       | Inr logits \<Rightarrow>
       (case tf_squeeze_axis1 hidden_states of
         Inl e \<Rightarrow> Inl e
       | Inr hidden_states \<Rightarrow> Inr (logits, hidden_states, cache))))))))"

text \<open>
  \<^verbatim>\<open>tf.math.reduce_sum(tf.cast(mask, "int32"), axis=-1)\<close> (lines 517--519).
\<close>

definition row_lengths :: "bool tensor2 \<Rightarrow> int list" where
  "row_lengths padding_mask =
     map (\<lambda>row. int32 (sum_list (map (\<lambda>b. if b then 1 else 0) row))) padding_mask"

text \<open>\<^verbatim>\<open>tf.math.reduce_min\<close> of an \<^verbatim>\<open>int32\<close> vector; of no element it is the largest
  \<^verbatim>\<open>int32\<close>.\<close>

definition tf_reduce_min :: "int list \<Rightarrow> int" where
  "tf_reduce_min xs = (case xs of [] \<Rightarrow> 2147483647 | x # ys \<Rightarrow> fold min ys x)"

text \<open>The value of \<open>index\<close> at line 521, the \<open>index\<close> argument of the sampler.\<close>

definition start_index :: "bool tensor2 \<Rightarrow> int" where
  "start_index dec_padding_mask = tf_reduce_min (row_lengths dec_padding_mask)"

text \<open>
  Elementwise binary operations broadcast: on each axis the dimensions are equal, or one
  of them is 1.
\<close>

definition broadcast :: "('b \<Rightarrow> 'c \<Rightarrow> 'd) \<Rightarrow> 'b list \<Rightarrow> 'c list \<Rightarrow> error + 'd list" where
  "broadcast f xs ys =
     (if length xs = length ys then Inr (map2 f xs ys)
      else if length xs = 1 then Inr (map (f (hd xs)) ys)
      else if length ys = 1 then Inr (map (\<lambda>x. f x (hd ys)) xs)
      else Inl InvalidArgumentError)"

fun sequence :: "(error + 'b) list \<Rightarrow> error + 'b list" where
  "sequence [] = Inr []"
| "sequence (Inl e # rs) = Inl e"
| "sequence (Inr x # rs) = (case sequence rs of Inl e \<Rightarrow> Inl e | Inr xs \<Rightarrow> Inr (x # xs))"

definition tf_logical_and :: "bool tensor2 \<Rightarrow> bool tensor2 \<Rightarrow> error + bool tensor2" where
  "tf_logical_and a b =
     (case broadcast (broadcast (\<and>)) a b of Inl e \<Rightarrow> Inl e | Inr rows \<Rightarrow> sequence rows)"

text \<open>\<^verbatim>\<open>tf.math.cumsum(row, exclusive=True)\<close> on \<^verbatim>\<open>int32\<close>, with the sum so far.\<close>

fun cumsum_exclusive :: "int \<Rightarrow> int list \<Rightarrow> int list" where
  "cumsum_exclusive acc [] = []"
| "cumsum_exclusive acc (x # xs) = acc # cumsum_exclusive (int32 (acc + x)) xs"

text \<open>
  The output padding mask (lines 561--575). \<open>dec_token_ids\<close> is the result of the sampler,
  \<open>dec_padding_mask\<close> the mask of the inputs.
\<close>

definition output_padding_mask ::
  "int tensor2 \<Rightarrow> bool tensor2 \<Rightarrow> int option \<Rightarrow> error + bool tensor2" where
  "output_padding_mask dec_token_ids dec_padding_mask end_token =
     (case end_token of
        Some e \<Rightarrow>
          (case tf_logical_and (map (map (\<lambda>t. t = e)) dec_token_ids)
                  (map (map Not) dec_padding_mask) of
             Inl err \<Rightarrow> Inl err
           | Inr end_locations \<Rightarrow>
               (let end_locations = map (map (\<lambda>b. if b then 1 else 0)) end_locations;
                    overflow = map (cumsum_exclusive 0) end_locations
                in Inr (map (map (\<lambda>v. \<not> (v \<noteq> 0))) overflow)))
      | None \<Rightarrow> Inr (map (map (\<lambda>_. True)) dec_token_ids))"

definition generate_step ::
  "('a::semiring_0) bart_seq_2_seq_lm \<Rightarrow> generate_inputs \<Rightarrow> int option \<Rightarrow>
   error + generate_outputs" where
  "generate_step self inputs end_token =
     (let enc_token_ids = encoder_token_ids inputs;
          enc_padding_mask = encoder_padding_mask inputs;
          dec_token_ids = generate_inputs.decoder_token_ids inputs;
          dec_padding_mask = generate_inputs.decoder_padding_mask inputs;
          batch_size = length enc_token_ids
      in
      case build_cache self enc_token_ids enc_padding_mask dec_token_ids of
        Inl e \<Rightarrow> Inl e
      | Inr (hidden_states, encoder_hidden_states, self_attention_cache,
             cross_attention_cache) \<Rightarrow>
      (let index = start_index dec_padding_mask in
       case sampler self
              (generate_step_next self batch_size encoder_hidden_states enc_padding_mask
                 cross_attention_cache)
              dec_token_ids self_attention_cache index dec_padding_mask end_token
              hidden_states of
         Inl e \<Rightarrow> Inl e
       | Inr dec_token_ids \<Rightarrow>
       (case output_padding_mask dec_token_ids dec_padding_mask end_token of
         Inl e \<Rightarrow> Inl e
       | Inr dec_padding_mask \<Rightarrow>
           Inr \<lparr>generate_outputs.decoder_token_ids = dec_token_ids,
                generate_outputs.decoder_padding_mask = dec_padding_mask\<rparr>)))"

subsection \<open>\<^verbatim>\<open>compile\<close> and \<^verbatim>\<open>make_generate_function\<close>\<close>

text \<open>
  \<^verbatim>\<open>keras.Model.compile\<close> stores the execution configuration it is given; \<open>raised\<close> is
  the exception with which it rejects the training arguments forwarded to it, if any.
\<close>

definition keras_model_compile ::
  "bool \<Rightarrow> bool \<Rightarrow> error option \<Rightarrow> 'a bart_seq_2_seq_lm \<Rightarrow>
   (error + unit) \<times> 'a bart_seq_2_seq_lm" where
  "keras_model_compile run_eagerly_arg jit_compile_arg raised self =
     (let self = self\<lparr>run_eagerly := run_eagerly_arg, jit_compile := Some jit_compile_arg\<rparr>
      in case raised of None \<Rightarrow> (Inr (), self) | Some e \<Rightarrow> (Inl e, self))"

text \<open>
  \<^verbatim>\<open>compile\<close> (lines 436--454). \<open>get_sampler\<close> (\<^verbatim>\<open>keras_nlp.samplers.serialization.get\<close>,
  which raises on an identifier that names no sampler) and \<open>is_xla_compatible\<close>
  (\<^verbatim>\<open>keras_nlp.utils.keras_utils\<close>) are not in this file of the program and are
  parameters. The method mutates \<open>self\<close>: the result is the exception raised, if any, and
  the object as the call leaves it. An exception ends the call where it is raised, with
  the assignments made so far.
\<close>

definition compile ::
  "('s \<Rightarrow> error + 'a sampler_fn) \<Rightarrow> ('a bart_seq_2_seq_lm \<Rightarrow> bool) \<Rightarrow> error option \<Rightarrow>
   bool \<Rightarrow> bool \<Rightarrow> 's \<Rightarrow> 'a bart_seq_2_seq_lm \<Rightarrow> (error + unit) \<times> 'a bart_seq_2_seq_lm" where
  "compile get_sampler is_xla_compatible keras_raises run_eagerly_arg jit_compile_arg
       sampler_arg self =
     (let xla_compatible = is_xla_compatible self in
      case keras_model_compile run_eagerly_arg
             (jit_compile_arg \<and> xla_compatible \<and> \<not> run_eagerly_arg) keras_raises self of
        (Inl e, self) \<Rightarrow> (Inl e, self)
      | (Inr _, self) \<Rightarrow>
          (case get_sampler sampler_arg of
             Inl e \<Rightarrow> (Inl e, self)
           | Inr s \<Rightarrow>
               (let self = self\<lparr>sampler := s\<rparr>
                in (Inr (), self\<lparr>generate_function := None\<rparr>))))"

text \<open>\<^verbatim>\<open>make_generate_function\<close> (lines 456--470) returns the handle and the object.\<close>

definition make_generate_function ::
  "'a bart_seq_2_seq_lm \<Rightarrow> generate_fn \<times> 'a bart_seq_2_seq_lm" where
  "make_generate_function self =
     (case generate_function self of
        Some f \<Rightarrow> (f, self)
      | None \<Rightarrow>
          (let f = (if run_eagerly self then Generate_step
                    else Tf_function (case jit_compile self of None \<Rightarrow> True | Some j \<Rightarrow> j))
           in (f, self\<lparr>generate_function := Some f\<rparr>)))"

text \<open>
  Calling the handle: \<^verbatim>\<open>tf.function\<close> computes what the Python function it wraps
  computes, with the operations as they run eagerly (the clamping of slice starts under
  XLA is outside this model).
\<close>

definition call_generate_fn ::
  "generate_fn \<Rightarrow> ('a::semiring_0) bart_seq_2_seq_lm \<Rightarrow> generate_inputs \<Rightarrow> int option \<Rightarrow>
   error + generate_outputs" where
  "call_generate_fn f self x end_token =
     (case f of
        Generate_step \<Rightarrow> generate_step self x end_token
      | Tf_function j \<Rightarrow> generate_step self x end_token)"

subsection \<open>\<^verbatim>\<open>_normalize_generate_inputs\<close>\<close>

fun nd_shape :: "nd \<Rightarrow> nat list" where
  "nd_shape (Elem e) = []"
| "nd_shape (Arr []) = [0]"
| "nd_shape (Arr (x # xs)) = Suc (length xs) # nd_shape x"

text \<open>
  \<^verbatim>\<open>tf.convert_to_tensor\<close> of a string or of a list: a string is a tensor of rank 0; the
  elements of a list must convert to tensors of one dtype and shape; the empty list is an
  empty \<^verbatim>\<open>float32\<close> vector.
\<close>

definition tf_pack :: "tensor list \<Rightarrow> error + tensor" where
  "tf_pack ts =
     (case ts of
        [] \<Rightarrow> Inr (Tensor TF_float32 (Arr []))
      | t # _ \<Rightarrow>
          if list_all (\<lambda>u. dtype u = dtype t \<and> nd_shape (data u) = nd_shape (data t)) ts
          then Inr (Tensor (dtype t) (Arr (map data ts)))
          else Inl ValueError)"

fun tf_convert_to_tensor :: "pyval \<Rightarrow> error + tensor" where
  "tf_convert_to_tensor (PyStr s) = Inr (Tensor TF_string (Elem (S s)))"
| "tf_convert_to_tensor (PyTensor t) = Inr t"
| "tf_convert_to_tensor (PyList xs) =
     (case sequence (map tf_convert_to_tensor xs) of Inl e \<Rightarrow> Inl e | Inr ts \<Rightarrow> tf_pack ts)"
| "tf_convert_to_tensor (PyDict kvs) = Inl ValueError"
| "tf_convert_to_tensor (PyDataset bs) = Inl ValueError"

text \<open>The inner function \<^verbatim>\<open>normalize\<close> of \<^verbatim>\<open>_normalize_generate_inputs\<close>
  (lines 597--606): the result is \<open>(x, x_is_scalar)\<close>.\<close>

definition normalize_input :: "pyval \<Rightarrow> error + pyval \<times> bool" where
  "normalize_input x =
     (case (case x of
              PyStr s \<Rightarrow> map_sum id PyTensor (tf_convert_to_tensor x)
            | PyList xs \<Rightarrow> map_sum id PyTensor (tf_convert_to_tensor x)
            | _ \<Rightarrow> Inr x) of
        Inl e \<Rightarrow> Inl e
      | Inr x \<Rightarrow>
          (case x of
             PyTensor (Tensor dt (Elem e)) \<Rightarrow> Inr (PyTensor (Tensor dt (Arr [Elem e])), True)
           | _ \<Rightarrow> Inr (x, False)))"

text \<open>
  The loop over the keys of a dictionary (lines 609--610): every value is normalized, and
  \<open>input_is_scalar\<close> is assigned at every key.
\<close>

fun normalize_dict ::
  "(string \<times> pyval) list \<Rightarrow> bool \<Rightarrow> error + (string \<times> pyval) list \<times> bool" where
  "normalize_dict [] input_is_scalar = Inr ([], input_is_scalar)"
| "normalize_dict ((k, v) # kvs) input_is_scalar =
     (case normalize_input v of
        Inl e \<Rightarrow> Inl e
      | Inr (v', x_is_scalar) \<Rightarrow>
          (case normalize_dict kvs x_is_scalar of
             Inl e \<Rightarrow> Inl e
           | Inr (kvs', input_is_scalar) \<Rightarrow> Inr ((k, v') # kvs', input_is_scalar)))"

text \<open>The result is the sequence of batches (the dataset, or the list of the one batch)
  and \<open>input_is_scalar\<close>.\<close>

definition normalize_generate_inputs :: "pyval \<Rightarrow> error + pyval list \<times> bool" where
  "normalize_generate_inputs inputs =
     (case inputs of
        PyDataset batches \<Rightarrow> Inr (batches, False)
      | PyDict kvs \<Rightarrow>
          (case normalize_dict kvs False of
             Inl e \<Rightarrow> Inl e
           | Inr (kvs', input_is_scalar) \<Rightarrow> Inr ([PyDict kvs'], input_is_scalar))
      | _ \<Rightarrow>
          (case normalize_input inputs of
             Inl e \<Rightarrow> Inl e
           | Inr (x, input_is_scalar) \<Rightarrow> Inr ([x], input_is_scalar)))"

subsection \<open>\<^verbatim>\<open>_normalize_generate_outputs\<close>\<close>

text \<open>
  \<^verbatim>\<open>tf.concat(ts, axis=0)\<close>: a list of one tensor is returned as it is; several tensors
  must have one dtype and a rank of 1 at least.
\<close>

fun nd_items :: "nd \<Rightarrow> nd list" where
  "nd_items (Elem e) = []"
| "nd_items (Arr xs) = xs"

fun is_Arr :: "nd \<Rightarrow> bool" where
  "is_Arr (Elem e) = False"
| "is_Arr (Arr xs) = True"

definition tf_concat_axis0 :: "tensor list \<Rightarrow> error + tensor" where
  "tf_concat_axis0 ts =
     (case ts of
        [] \<Rightarrow> Inl ValueError
      | [t] \<Rightarrow> Inr t
      | t # _ \<Rightarrow>
          if list_all (\<lambda>u. dtype u = dtype t \<and> is_Arr (data u)) ts
          then Inr (Tensor (dtype t) (Arr (concat (map (\<lambda>u. nd_items (data u)) ts))))
          else Inl InvalidArgumentError)"

text \<open>\<^verbatim>\<open>tf.squeeze(x, 0)\<close>: axis 0 must exist and have dimension 1.\<close>

definition tf_squeeze_axis0 :: "tensor \<Rightarrow> error + tensor" where
  "tf_squeeze_axis0 t =
     (case data t of Arr [x] \<Rightarrow> Inr (Tensor (dtype t) x) | _ \<Rightarrow> Inl InvalidArgumentError)"

text \<open>
  Modelled from the spec: \<^verbatim>\<open>tensor_to_string_list\<close> of
  \<^verbatim>\<open>keras_nlp.utils.tensor_utils\<close> is missing from the sources. String-typed results
  become host-native string lists, of the nesting of the tensor; a tensor of rank 0
  becomes a single string.
\<close>

fun string_list_of :: "nd \<Rightarrow> host option" where
  "string_list_of (Elem e) = (case e of S s \<Rightarrow> Some (HostStr s) | _ \<Rightarrow> None)"
| "string_list_of (Arr xs) = map_option HostList (those (map string_list_of xs))"

definition tensor_to_string_list :: "tensor \<Rightarrow> error + host" where
  "tensor_to_string_list t =
     (case string_list_of (data t) of None \<Rightarrow> Inl TypeError | Some h \<Rightarrow> Inr h)"

text \<open>The inner function \<^verbatim>\<open>normalize\<close> of \<^verbatim>\<open>_normalize_generate_outputs\<close>
  (lines 631--637).\<close>

definition normalize_output :: "bool \<Rightarrow> tensor list \<Rightarrow> error + host" where
  "normalize_output input_is_scalar xs =
     (case tf_concat_axis0 xs of
        Inl e \<Rightarrow> Inl e
      | Inr x \<Rightarrow>
          (case (if input_is_scalar then tf_squeeze_axis0 x else Inr x) of
             Inl e \<Rightarrow> Inl e
           | Inr x \<Rightarrow>
               if dtype x = TF_string then tensor_to_string_list x else Inr (HostNdarray x)))"

definition tensor_of_ints :: "int tensor2 \<Rightarrow> tensor" where
  "tensor_of_ints t = Tensor TF_int32 (Arr (map (\<lambda>row. Arr (map (\<lambda>v. Elem (I v)) row)) t))"

definition tensor_of_bools :: "bool tensor2 \<Rightarrow> tensor" where
  "tensor_of_bools t = Tensor TF_bool (Arr (map (\<lambda>row. Arr (map (\<lambda>v. Elem (B v)) row)) t))"

text \<open>
  \<^verbatim>\<open>[x[key] for x in outputs]\<close> and \<^verbatim>\<open>[x for x in outputs]\<close>: a tensor has no string
  keys, and a dictionary is not a tensor.
\<close>

definition output_dicts :: "batch_output list \<Rightarrow> error + generate_outputs list" where
  "output_dicts outputs =
     sequence (map (\<lambda>x. case x of OutDict d \<Rightarrow> Inr d | OutTensor t \<Rightarrow> Inl TypeError) outputs)"

definition output_tensors :: "batch_output list \<Rightarrow> error + tensor list" where
  "output_tensors outputs =
     sequence (map (\<lambda>x. case x of OutTensor t \<Rightarrow> Inr t | OutDict d \<Rightarrow> Inl TypeError) outputs)"

definition normalize_generate_outputs :: "batch_output list \<Rightarrow> bool \<Rightarrow> error + host" where
  "normalize_generate_outputs outputs input_is_scalar =
     (case outputs of
        [] \<Rightarrow> Inl IndexError
      | OutDict _ # _ \<Rightarrow>
          (case output_dicts outputs of
             Inl e \<Rightarrow> Inl e
           | Inr ds \<Rightarrow>
               (case normalize_output input_is_scalar
                       (map (\<lambda>d. tensor_of_ints (generate_outputs.decoder_token_ids d)) ds) of
                  Inl e \<Rightarrow> Inl e
                | Inr ids \<Rightarrow>
                    (case normalize_output input_is_scalar
                            (map (\<lambda>d. tensor_of_bools (generate_outputs.decoder_padding_mask d))
                               ds) of
                       Inl e \<Rightarrow> Inl e
                     | Inr padding_mask \<Rightarrow>
                         Inr (HostDict [(''decoder_token_ids'', ids),
                                        (''decoder_padding_mask'', padding_mask)]))))
      | OutTensor _ # _ \<Rightarrow>
          (case output_tensors outputs of
             Inl e \<Rightarrow> Inl e
           | Inr ts \<Rightarrow> normalize_output input_is_scalar ts))"

subsection \<open>\<^verbatim>\<open>generate\<close>\<close>

text \<open>
  Without a preprocessor a batch is the dictionary the caller gave, and \<^verbatim>\<open>generate_step\<close>
  reads its four keys (lines 493--503). The values are tensors of rank 2, of token ids and
  of booleans: a padding mask of another element type is outside this model, which
  rejects it.
\<close>

definition py_getitem :: "pyval \<Rightarrow> string \<Rightarrow> error + pyval" where
  "py_getitem x key =
     (case x of
        PyDict kvs \<Rightarrow> (case map_of kvs key of None \<Rightarrow> Inl KeyError | Some v \<Rightarrow> Inr v)
      | _ \<Rightarrow> Inl TypeError)"

definition nd_int_row :: "nd \<Rightarrow> error + int list" where
  "nd_int_row r =
     (case r of
        Arr xs \<Rightarrow>
          sequence (map (\<lambda>x. case x of Elem (I v) \<Rightarrow> Inr v | _ \<Rightarrow> Inl InvalidArgumentError) xs)
      | _ \<Rightarrow> Inl InvalidArgumentError)"

definition nd_bool_row :: "nd \<Rightarrow> error + bool list" where
  "nd_bool_row r =
     (case r of
        Arr xs \<Rightarrow>
          sequence (map (\<lambda>x. case x of Elem (B v) \<Rightarrow> Inr v | _ \<Rightarrow> Inl InvalidArgumentError) xs)
      | _ \<Rightarrow> Inl InvalidArgumentError)"

definition as_int_tensor2 :: "pyval \<Rightarrow> error + int tensor2" where
  "as_int_tensor2 x =
     (case x of
        PyTensor (Tensor dt (Arr rows)) \<Rightarrow> sequence (map nd_int_row rows)
      | _ \<Rightarrow> Inl InvalidArgumentError)"

definition as_bool_tensor2 :: "pyval \<Rightarrow> error + bool tensor2" where
  "as_bool_tensor2 x =
     (case x of
        PyTensor (Tensor dt (Arr rows)) \<Rightarrow> sequence (map nd_bool_row rows)
      | _ \<Rightarrow> Inl InvalidArgumentError)"

definition bind :: "error + 'b \<Rightarrow> ('b \<Rightarrow> error + 'c) \<Rightarrow> error + 'c" where
  "bind r f = (case r of Inl e \<Rightarrow> Inl e | Inr x \<Rightarrow> f x)"

definition as_generate_inputs :: "pyval \<Rightarrow> error + generate_inputs" where
  "as_generate_inputs x =
     bind (py_getitem x ''encoder_token_ids'') (\<lambda>a.
     bind (py_getitem x ''encoder_padding_mask'') (\<lambda>b.
     bind (py_getitem x ''decoder_token_ids'') (\<lambda>c.
     bind (py_getitem x ''decoder_padding_mask'') (\<lambda>d.
     bind (as_int_tensor2 a) (\<lambda>a.
     bind (as_bool_tensor2 b) (\<lambda>b.
     bind (as_int_tensor2 c) (\<lambda>c.
     bind (as_bool_tensor2 d) (\<lambda>d.
       Inr \<lparr>encoder_token_ids = a, encoder_padding_mask = b,
            generate_inputs.decoder_token_ids = c,
            generate_inputs.decoder_padding_mask = d\<rparr>))))))))"

text \<open>
  \<^verbatim>\<open>generate\<close> (lines 650--718). The three passes run on every batch in turn; the result
  comes with the object, which \<^verbatim>\<open>make_generate_function\<close> may have changed.
\<close>

definition generate ::
  "('a::semiring_0) bart_seq_2_seq_lm \<Rightarrow> pyval \<Rightarrow> int option \<Rightarrow>
   (error + host) \<times> 'a bart_seq_2_seq_lm" where
  "generate self inputs max_length =
     (case make_generate_function self of
        (fn, self) \<Rightarrow>
          (let end_token = (case preprocessor self of None \<Rightarrow> None | Some p \<Rightarrow> end_token_id p);
               preprocess = (\<lambda>x. case preprocessor self of
                                    None \<Rightarrow> as_generate_inputs x
                                  | Some p \<Rightarrow> generate_preprocess p x max_length);
               generate_batch = (\<lambda>x. call_generate_fn fn self x end_token);
               postprocess = (\<lambda>x. case preprocessor self of
                                     None \<Rightarrow> Inr (OutDict x)
                                   | Some p \<Rightarrow> map_sum id OutTensor (generate_postprocess p x))
           in (bind (normalize_generate_inputs inputs) (\<lambda>(inputs, input_is_scalar).
               bind (sequence (map (\<lambda>x. bind (preprocess x) generate_batch) inputs)) (\<lambda>outputs.
               bind (sequence (map postprocess outputs)) (\<lambda>outputs.
                 normalize_generate_outputs outputs input_is_scalar))),
               self)))"

subsection \<open>The sampler\<close>






section \<open>A small instance\<close>

text \<open>
  A backbone of one layer on integers, whose decoder layer adds one to every entry of both
  caches it is given, and a sampler that calls \<open>next\<close> once and writes the token \<open>5 + index\<close>
  at every position the mask leaves open.
\<close>

definition toy_backbone :: "int bart_backbone" where
  "toy_backbone =
     \<lparr>num_layers = 1, num_heads = 1, hidden_dim = 1,
      token_embedding = map (map (\<lambda>t. [t])),
      token_embedding_embeddings = [[1], [2]],
      encoder_position_embedding = (\<lambda>x. x),
      encoder_embeddings_add = fst,
      encoder_embeddings_layer_norm = (\<lambda>x. x),
      encoder_embeddings_dropout = (\<lambda>x. x),
      transformer_encoder_layer = (\<lambda>i x m. x),
      decoder_position_embedding = (\<lambda>x si. x),
      decoder_embeddings_add = fst,
      decoder_embeddings_layer_norm = (\<lambda>x. x),
      decoder_embeddings_dropout = (\<lambda>x. x),
      transformer_decoder_layer =
        (\<lambda>i x enc em sc si cc ci.
           (x, map (map (map (map (map (\<lambda>v. v + 1))))) sc,
               map (map (map (map (map (\<lambda>v. v + 1))))) cc))\<rparr>"

definition toy_sampler :: "int sampler_fn" where
  "toy_sampler nxt prompt cache index padding_mask end_token hidden_states =
     (case nxt prompt cache index of
        Inl e \<Rightarrow> Inl e
      | Inr _ \<Rightarrow> Inr (map2 (map2 (\<lambda>t b. if b then t else 5 + index)) prompt padding_mask))"

definition toy_lm :: "int bart_seq_2_seq_lm" where
  "toy_lm =
     \<lparr>backbone = toy_backbone, preprocessor = None, generate_function = None,
      sampler = toy_sampler, run_eagerly = False, jit_compile = Some True\<rparr>"

text \<open>
  A preprocessor for the instance: every string of the batch becomes the encoder tokens
  \<open>[3]\<close> and the decoder prompt \<open>[3, 4]\<close> padded to length 4; a row of token ids becomes the
  string of one letter per token, \<open>z\<close> for the end token 7 and \<open>a\<close> for any other.
\<close>

definition toy_preprocessor :: bart_preprocessor where
  "toy_preprocessor =
     \<lparr>generate_preprocess =
        (\<lambda>x max_length.
           case x of
             PyTensor (Tensor TF_string (Arr xs)) \<Rightarrow>
               Inr \<lparr>encoder_token_ids = map (\<lambda>_. [3]) xs,
                    encoder_padding_mask = map (\<lambda>_. [True]) xs,
                    generate_inputs.decoder_token_ids = map (\<lambda>_. [3, 4, 0, 0]) xs,
                    generate_inputs.decoder_padding_mask =
                      map (\<lambda>_. [True, True, False, False]) xs\<rparr>
           | _ \<Rightarrow> Inl ValueError),
      generate_postprocess =
        (\<lambda>out. Inr (Tensor TF_string
           (Arr (map (\<lambda>row. Elem (S (map (\<lambda>t. if t = 7 then CHR ''z'' else CHR ''a'') row)))
                   (generate_outputs.decoder_token_ids out))))),
      end_token_id = Some 7\<rparr>"

definition toy_text_lm :: "int bart_seq_2_seq_lm" where
  "toy_text_lm = toy_lm\<lparr>preprocessor := Some toy_preprocessor\<rparr>"



section \<open>Properties\<close>

subsection \<open>Auxiliary facts\<close>

lemma slice_column_Inr:
  "tf_slice_column t j = Inr w \<Longrightarrow> w = map (\<lambda>row. [row ! nat j]) t"
  by (auto simp: tf_slice_column_def split: if_splits)

lemma call_decoder_cross_frame:
  "call_decoder_with_cache self enc em ids sc si (Some cc) None = Inr (lg, h, sc', cc')
   \<Longrightarrow> cc' = cc"
  by (auto simp: call_decoder_with_cache_def Let_def
           split: option.splits sum.splits prod.splits if_splits)

lemma call_decoder_self_frame:
  "call_decoder_with_cache self enc em ids (Some sc) None cc ci = Inr (lg, h, sc', cc')
   \<Longrightarrow> sc' = sc"
  by (auto simp: call_decoder_with_cache_def Let_def
           split: option.splits sum.splits prod.splits if_splits)

text \<open>On a rectangular tensor of shape \<open>[B, N, ...]\<close> with \<open>B > 0\<close>, unstacking along axis 1
  gives the \<open>N\<close> slices \<open>[:, i]\<close>.\<close>

lemma tf_unstack_axis1_rectangular:
  assumes "t \<noteq> []" and "\<forall>row\<in>set t. length row = n"
  shows "length (tf_unstack_axis1 t) = n"
    and "i < n \<Longrightarrow> tf_unstack_axis1 t ! i = map (\<lambda>row. row ! i) t"
proof -
  have "foldr (\<lambda>xs. max (length xs)) u 0 = (if u = [] then 0 else n)"
    if "\<forall>row\<in>set u. length row = n" for u :: "'a list list"
    using that by (induction u) simp_all
  with assms have m: "foldr (\<lambda>xs. max (length xs)) t 0 = n" by simp
  show l: "length (tf_unstack_axis1 t) = n"
    by (simp add: tf_unstack_axis1_def length_transpose m)
  assume i: "i < n"
  have "filter (\<lambda>ys. i < length ys) t = t"
    using assms(2) i by (simp add: filter_id_conv)
  then show "tf_unstack_axis1 t ! i = map (\<lambda>row. row ! i) t"
    using l i by (simp add: tf_unstack_axis1_def nth_transpose)
qed

lemma concat_replicate_replicate:
  "concat (replicate n (replicate m x)) = replicate (n * m) x"
  by (induction n) (simp_all add: replicate_add)

lemma generate_step_unfold:
  assumes "build_cache self (encoder_token_ids inputs) (encoder_padding_mask inputs)
             (generate_inputs.decoder_token_ids inputs) = Inr (h, enc_h, sc, cc)"
  shows "generate_step self inputs e =
     bind (sampler self
             (generate_step_next self (length (encoder_token_ids inputs)) enc_h
                (encoder_padding_mask inputs) cc)
             (generate_inputs.decoder_token_ids inputs) sc
             (start_index (generate_inputs.decoder_padding_mask inputs))
             (generate_inputs.decoder_padding_mask inputs) e h)
       (\<lambda>ids. bind (output_padding_mask ids (generate_inputs.decoder_padding_mask inputs) e)
          (\<lambda>m. Inr \<lparr>generate_outputs.decoder_token_ids = ids,
                     generate_outputs.decoder_padding_mask = m\<rparr>))"
  using assms by (simp add: generate_step_def bind_def Let_def split: sum.splits)

subsection \<open>The decode step\<close>

text \<open>
  C1, as amended. With an index that designates a column of the prompt buffer
  (\<open>1 \<le> index\<close>, and \<open>index\<close> at most the length of the rows), \<open>next\<close> slices the one column
  at position \<open>index - 1\<close> of every row, calls \<open>call_decoder_with_cache\<close> on that window of
  one token with the self-attention update index \<open>index - 1\<close> and the cross-attention
  update index \<open>None\<close>, and returns the logits and the hidden states with the window axis
  squeezed away, and the self-attention cache of that call. In particular, when the
  encoder tensors and the cross-attention cache have the batch size of the prompt and the
  call returns logits and hidden states for a window of one position, \<open>next\<close> returns that
  one position of each, and the cache of the call.

  The bound on the index is needed: \<open>generate_step\<close> starts the sampler at the minimum
  row length, which is 0 when a row of the decoder padding mask has no true entry, and at
  index 0 the slice at column \<open>-1\<close> is rejected, so that \<open>next\<close> decodes no token there.
\<close>

theorem next_decodes_single_token:
  assumes "1 \<le> index" and "list_all (\<lambda>row. nat index \<le> length row) prompt"
  shows "generate_step_next self batch_size enc em cross prompt cache index =
     bind (repeat_tensor batch_size (length prompt) enc) (\<lambda>enc'.
     bind (repeat_tensor batch_size (length prompt) em) (\<lambda>em'.
     bind (repeat_tensor batch_size (length prompt) cross) (\<lambda>cross'.
     bind (call_decoder_with_cache self enc' em' (map (\<lambda>row. [row ! nat (index - 1)]) prompt)
             (Some cache) (Some (index - 1)) (Some cross') None)
       (\<lambda>(logits, hidden_states, cache', cc').
     bind (tf_squeeze_axis1 logits) (\<lambda>logits1.
     bind (tf_squeeze_axis1 hidden_states) (\<lambda>hidden_states1.
       Inr (logits1, hidden_states1, cache')))))))
   \<and> (length enc = length prompt \<and> length em = length prompt \<and>
      length cross = length prompt \<and>
      call_decoder_with_cache self enc em (map (\<lambda>row. [row ! nat (index - 1)]) prompt)
        (Some cache) (Some (index - 1)) (Some cross) None = Inr (lg, hs, cache1, cc1) \<and>
      list_all (\<lambda>row. length row = 1) lg \<and> list_all (\<lambda>row. length row = 1) hs
      \<longrightarrow> generate_step_next self batch_size enc em cross prompt cache index =
            Inr (map hd lg, map hd hs, cache1))"
proof -
  have "list_all (\<lambda>row. nat (index - 1) < length row) prompt"
    using assms by (auto simp: list_all_iff)
  then have s: "tf_slice_column prompt (index - 1) =
      Inr (map (\<lambda>row. [row ! nat (index - 1)]) prompt)"
    using assms(1) by (simp add: tf_slice_column_def)
  have e: "generate_step_next self batch_size enc em cross prompt cache index =
     bind (repeat_tensor batch_size (length prompt) enc) (\<lambda>enc'.
     bind (repeat_tensor batch_size (length prompt) em) (\<lambda>em'.
     bind (repeat_tensor batch_size (length prompt) cross) (\<lambda>cross'.
     bind (call_decoder_with_cache self enc' em' (map (\<lambda>row. [row ! nat (index - 1)]) prompt)
             (Some cache) (Some (index - 1)) (Some cross') None)
       (\<lambda>(logits, hidden_states, cache', cc').
     bind (tf_squeeze_axis1 logits) (\<lambda>logits1.
     bind (tf_squeeze_axis1 hidden_states) (\<lambda>hidden_states1.
       Inr (logits1, hidden_states1, cache')))))))"
    using s by (simp add: generate_step_next_def bind_def Let_def split: sum.splits prod.splits)
  have "generate_step_next self batch_size enc em cross prompt cache index =
            Inr (map hd lg, map hd hs, cache1)"
    if "length enc = length prompt \<and> length em = length prompt \<and>
      length cross = length prompt \<and>
      call_decoder_with_cache self enc em (map (\<lambda>row. [row ! nat (index - 1)]) prompt)
        (Some cache) (Some (index - 1)) (Some cross) None = Inr (lg, hs, cache1, cc1) \<and>
      list_all (\<lambda>row. length row = 1) lg \<and> list_all (\<lambda>row. length row = 1) hs"
    using that by (simp add: e repeat_tensor_def bind_def tf_squeeze_axis1_def)
  with e show ?thesis by blast
qed

theorem next_decodes_single_token_witness:
  "(1::int) \<le> 2 \<and> list_all (\<lambda>row. nat 2 \<le> length row) [[3, 4, 0, 0 :: int]] \<and>
   length [[[5 :: int]]] = length [[3, 4, 0, 0 :: int]] \<and>
   length [[True]] = length [[3, 4, 0, 0 :: int]] \<and>
   length [[[[[[0 :: int]]], [[[0]]]]]] = length [[3, 4, 0, 0 :: int]] \<and>
   map (\<lambda>row. [row ! nat (2 - 1)]) [[3, 4, 0, 0 :: int]] = [[4]] \<and>
   call_decoder_with_cache toy_lm [[[5]]] [[True]] [[4]]
       (Some [[[[[[0]], [[0]]], [[[0]], [[0]]]]]]) (Some 1) (Some [[[[[[0]]], [[[0]]]]]]) None
     = Inr ([[[4, 8]]], [[[4]]], [[[[[[1]], [[1]]], [[[1]], [[1]]]]]], [[[[[[0]]], [[[0]]]]]]) \<and>
   list_all (\<lambda>row. length row = 1) [[[4, 8 :: int]]] \<and>
   list_all (\<lambda>row. length row = 1) [[[4 :: int]]] \<and>
   generate_step_next toy_lm 1 [[[5]]] [[True]] [[[[[[0]]], [[[0]]]]]] [[3, 4, 0, 0]]
       [[[[[[0]], [[0]]], [[[0]], [[0]]]]]] 2
     = Inr ([[4, 8]], [[4]], [[[[[[1]], [[1]]], [[[1]], [[1]]]]]])"
proof -
  have i: "(1::int) \<le> 2" by simp
  have r: "list_all (\<lambda>row. nat 2 \<le> length row) [[3, 4, 0, 0 :: int]]" by simp
  have w: "map (\<lambda>row. [row ! nat (2 - 1)]) [[3, 4, 0, 0 :: int]] = [[4]]" by simp
  have c: "call_decoder_with_cache toy_lm [[[5]]] [[True]] [[4]]
       (Some [[[[[[0]], [[0]]], [[[0]], [[0]]]]]]) (Some 1) (Some [[[[[[0]]], [[[0]]]]]]) None
     = Inr ([[[4, 8]]], [[[4]]], [[[[[[1]], [[1]]], [[[1]], [[1]]]]]], [[[[[[0]]], [[[0]]]]]])"
    by code_simp
  have "generate_step_next toy_lm 1 [[[5]]] [[True]] [[[[[[0]]], [[[0]]]]]] [[3, 4, 0, 0]]
       [[[[[[0]], [[0]]], [[[0]], [[0]]]]]] 2
     = Inr (map hd [[[4, 8]]], map hd [[[4]]], [[[[[[1]], [[1]]], [[[1]], [[1]]]]]])"
    by (rule next_decodes_single_token [OF i r, THEN conjunct2, rule_format])
      (simp add: c)
  with i r w c show ?thesis by simp
qed

theorem next_decodes_single_token_counterexample:
  "start_index [[False, False, False, False]] = 0 \<and>
   build_cache toy_lm [[3]] [[True]] [[0, 0, 0, 0]] =
     Inr ([[[0], [0], [0], [0]]], [[[3]]],
          [[[[[[1]], [[1]], [[1]], [[1]]], [[[1]], [[1]], [[1]], [[1]]]]]],
          [[[[[[1]]], [[[1]]]]]]) \<and>
   tf_slice_column [[0, 0, 0, 0 :: int]] (0 - 1) = Inl InvalidArgumentError \<and>
   generate_step_next toy_lm 1 [[[3]]] [[True]] [[[[[[1]]], [[[1]]]]]] [[0, 0, 0, 0]]
       [[[[[[1]], [[1]], [[1]], [[1]]], [[[1]], [[1]], [[1]], [[1]]]]]] 0
     = Inl InvalidArgumentError \<and>
   generate_step toy_lm
       \<lparr>encoder_token_ids = [[3]], encoder_padding_mask = [[True]],
        generate_inputs.decoder_token_ids = [[0, 0, 0, 0]],
        generate_inputs.decoder_padding_mask = [[False, False, False, False]]\<rparr> None
     = Inl InvalidArgumentError"
  by code_simp

text \<open>
  C5. For a backbone with at least one attention head, \<open>_build_cache\<close> is the encoder pass
  on the encoder inputs, the allocation of two caches of zeros, of the shapes
  \<open>[batch, layers, 2, decoder length, heads, head dimension]\<close> and
  \<open>[batch, layers, 2, encoder length, heads, head dimension]\<close>, and one call of
  \<open>call_decoder_with_cache\<close> on the whole decoder prompt with both update indices \<open>0\<close>;
  it returns the hidden states and the two caches of that call, and the encoder hidden
  states.
\<close>

theorem build_cache_single_seeding_pass:
  assumes "num_heads (backbone self) \<noteq> 0"
  shows
    "(let bb = backbone self;
          head_dim = hidden_dim bb div num_heads bb;
          sc0 = tf_zeros6 (length enc_ids) (num_layers bb) 2 (tf_shape1 dec_ids)
                  (num_heads bb) head_dim;
          cc0 = tf_zeros6 (length enc_ids) (num_layers bb) 2 (tf_shape1 enc_ids)
                  (num_heads bb) head_dim;
          encoder_hidden_states = call_encoder self enc_ids enc_mask
      in initialize_cache self enc_ids dec_ids = Inr (sc0, cc0)
       \<and> concat (concat (concat (concat (concat sc0)))) =
           replicate (length enc_ids * num_layers bb * 2 * tf_shape1 dec_ids * num_heads bb
                        * head_dim) 0
       \<and> concat (concat (concat (concat (concat cc0)))) =
           replicate (length enc_ids * num_layers bb * 2 * tf_shape1 enc_ids * num_heads bb
                        * head_dim) 0
       \<and> build_cache self enc_ids enc_mask dec_ids =
           bind (call_decoder_with_cache self encoder_hidden_states enc_mask dec_ids
                   (Some sc0) (Some 0) (Some cc0) (Some 0))
             (\<lambda>(logits, hidden_states, sc, cc).
                 Inr (hidden_states, encoder_hidden_states, sc, cc)))"
  using assms
  by (simp add: build_cache_def initialize_cache_def bind_def Let_def tf_zeros6_def
        concat_replicate_replicate split: sum.splits prod.splits)

theorem build_cache_single_seeding_pass_witness:
  "num_heads (backbone toy_lm) \<noteq> 0 \<and>
   initialize_cache toy_lm [[3]] [[3, 4]] =
     Inr ([[[[[[0]], [[0]]], [[[0]], [[0]]]]]], [[[[[[0]]], [[[0]]]]]]) \<and>
   call_decoder_with_cache toy_lm [[[3]]] [[True]] [[3, 4]]
       (Some [[[[[[0]], [[0]]], [[[0]], [[0]]]]]]) (Some 0) (Some [[[[[[0]]], [[[0]]]]]])
       (Some 0)
     = Inr ([[[3, 6], [4, 8]]], [[[3], [4]]], [[[[[[1]], [[1]]], [[[1]], [[1]]]]]],
            [[[[[[1]]], [[[1]]]]]]) \<and>
   build_cache toy_lm [[3]] [[True]] [[3, 4]] =
     Inr ([[[3], [4]]], [[[3]]], [[[[[[1]], [[1]]], [[[1]], [[1]]]]]], [[[[[[1]]], [[[1]]]]]])"
proof -
  have h: "num_heads (backbone toy_lm) \<noteq> 0"
    by (simp add: toy_lm_def toy_backbone_def)
  have bb: "num_layers (backbone toy_lm) = 1" "num_heads (backbone toy_lm) = 1"
      "hidden_dim (backbone toy_lm) = 1"
    by (simp_all add: toy_lm_def toy_backbone_def)
  have e: "call_encoder toy_lm [[3]] [[True]] = [[[3]]]"
    by code_simp
  have c: "call_decoder_with_cache toy_lm [[[3]]] [[True]] [[3, 4]]
       (Some [[[[[[0]], [[0]]], [[[0]], [[0]]]]]]) (Some 0) (Some [[[[[[0]]], [[[0]]]]]])
       (Some 0)
     = Inr ([[[3, 6], [4, 8]]], [[[3], [4]]], [[[[[[1]], [[1]]], [[[1]], [[1]]]]]],
            [[[[[[1]]], [[[1]]]]]])"
    by code_simp
  note t = build_cache_single_seeding_pass [OF h, of "[[3]]" "[[3, 4]]" "[[True]]"]
  from t have "initialize_cache toy_lm [[3]] [[3, 4]] =
     Inr ([[[[[[0]], [[0]]], [[[0]], [[0]]]]]], [[[[[[0]]], [[[0]]]]]])"
    by (simp add: Let_def bb tf_shape1_def tf_zeros6_def numeral_2_eq_2)
  moreover from t have "build_cache toy_lm [[3]] [[True]] [[3, 4]] =
     Inr ([[[3], [4]]], [[[3]]], [[[[[[1]], [[1]]], [[[1]], [[1]]]]]], [[[[[[1]]], [[[1]]]]]])"
    by (simp add: Let_def bb tf_shape1_def tf_zeros6_def numeral_2_eq_2 e c bind_def)
  ultimately show ?thesis using h c by simp
qed

text \<open>
  C6. A call of \<open>call_decoder_with_cache\<close> with the cross-attention update index \<open>None\<close>
  returns the cross-attention cache it was given, and one with the self-attention update
  index \<open>None\<close> returns the self-attention cache it was given, whatever the layers
  return. A successful \<open>next\<close> has called \<open>call_decoder_with_cache\<close> with the
  cross-attention update index \<open>None\<close> on the cache of its closure (repeated along the
  batch axis to the width of the prompt), that call has returned this very cache, and the
  result of \<open>next\<close> has no cross-attention cache in it. In \<open>generate_step\<close> the cache of the
  closure is the one \<open>_build_cache\<close> returned.
\<close>

theorem cross_attention_cache_never_mutated:
  "(call_decoder_with_cache self enc em ids sc si (Some cc) None = Inr (lg, h, sc', cc')
      \<longrightarrow> cc' = cc)
 \<and> (call_decoder_with_cache self enc em ids (Some sc0) None cc0 ci = Inr (lg1, h1, sc1, cc1)
      \<longrightarrow> sc1 = sc0)
 \<and> (generate_step_next self batch_size enc em cross prompt cache index = Inr (lg2, h2, cache')
      \<longrightarrow> (\<exists>enc' em' cross' lg3 h3.
        repeat_tensor batch_size (length prompt) enc = Inr enc' \<and>
        repeat_tensor batch_size (length prompt) em = Inr em' \<and>
        repeat_tensor batch_size (length prompt) cross = Inr cross' \<and>
        call_decoder_with_cache self enc' em' (map (\<lambda>row. [row ! nat (index - 1)]) prompt)
          (Some cache) (Some (index - 1)) (Some cross') None = Inr (lg3, h3, cache', cross')))
 \<and> (build_cache self (encoder_token_ids inputs) (encoder_padding_mask inputs)
        (generate_inputs.decoder_token_ids inputs) = Inr (hs, enc_h, sc_b, cc_b)
      \<longrightarrow> generate_step self inputs end_token =
        bind (sampler self
                (generate_step_next self (length (encoder_token_ids inputs)) enc_h
                   (encoder_padding_mask inputs) cc_b)
                (generate_inputs.decoder_token_ids inputs) sc_b
                (start_index (generate_inputs.decoder_padding_mask inputs))
                (generate_inputs.decoder_padding_mask inputs) end_token hs)
          (\<lambda>ids. bind (output_padding_mask ids (generate_inputs.decoder_padding_mask inputs)
                         end_token)
             (\<lambda>m. Inr \<lparr>generate_outputs.decoder_token_ids = ids,
                        generate_outputs.decoder_padding_mask = m\<rparr>)))"
proof (intro conjI impI)
  assume "call_decoder_with_cache self enc em ids sc si (Some cc) None = Inr (lg, h, sc', cc')"
  then show "cc' = cc" by (rule call_decoder_cross_frame)
next
  assume "call_decoder_with_cache self enc em ids (Some sc0) None cc0 ci
            = Inr (lg1, h1, sc1, cc1)"
  then show "sc1 = sc0" by (rule call_decoder_self_frame)
next
  assume "generate_step_next self batch_size enc em cross prompt cache index
            = Inr (lg2, h2, cache')"
  then obtain w enc' em' cross' lg3 h3 ccr where
    w: "tf_slice_column prompt (index - 1) = Inr w"
    and r: "repeat_tensor batch_size (length w) enc = Inr enc'"
       "repeat_tensor batch_size (length w) em = Inr em'"
       "repeat_tensor batch_size (length w) cross = Inr cross'"
    and c: "call_decoder_with_cache self enc' em' w (Some cache) (Some (index - 1))
              (Some cross') None = Inr (lg3, h3, cache', ccr)"
    by (auto simp: generate_step_next_def Let_def split: sum.splits prod.splits)
  have "ccr = cross'" using c by (rule call_decoder_cross_frame)
  moreover have "w = map (\<lambda>row. [row ! nat (index - 1)]) prompt"
    using w by (rule slice_column_Inr)
  ultimately show "\<exists>enc' em' cross' lg3 h3.
        repeat_tensor batch_size (length prompt) enc = Inr enc' \<and>
        repeat_tensor batch_size (length prompt) em = Inr em' \<and>
        repeat_tensor batch_size (length prompt) cross = Inr cross' \<and>
        call_decoder_with_cache self enc' em' (map (\<lambda>row. [row ! nat (index - 1)]) prompt)
          (Some cache) (Some (index - 1)) (Some cross') None = Inr (lg3, h3, cache', cross')"
    using r c by auto
next
  assume "build_cache self (encoder_token_ids inputs) (encoder_padding_mask inputs)
        (generate_inputs.decoder_token_ids inputs) = Inr (hs, enc_h, sc_b, cc_b)"
  then show "generate_step self inputs end_token =
        bind (sampler self
                (generate_step_next self (length (encoder_token_ids inputs)) enc_h
                   (encoder_padding_mask inputs) cc_b)
                (generate_inputs.decoder_token_ids inputs) sc_b
                (start_index (generate_inputs.decoder_padding_mask inputs))
                (generate_inputs.decoder_padding_mask inputs) end_token hs)
          (\<lambda>ids. bind (output_padding_mask ids (generate_inputs.decoder_padding_mask inputs)
                         end_token)
             (\<lambda>m. Inr \<lparr>generate_outputs.decoder_token_ids = ids,
                        generate_outputs.decoder_padding_mask = m\<rparr>))"
    by (rule generate_step_unfold)
qed

theorem cross_attention_cache_never_mutated_witness:
  "call_decoder_with_cache toy_lm [[[5]]] [[True]] [[3, 4]]
       (Some [[[[[[0]], [[0]]], [[[0]], [[0]]]]]]) (Some 0) (Some [[[[[[0]]], [[[0]]]]]]) None
     = Inr ([[[3, 6], [4, 8]]], [[[3], [4]]], [[[[[[1]], [[1]]], [[[1]], [[1]]]]]],
            [[[[[[0]]], [[[0]]]]]]) \<and>
   call_decoder_with_cache toy_lm [[[5]]] [[True]] [[3, 4]]
       (Some [[[[[[0]], [[0]]], [[[0]], [[0]]]]]]) None (Some [[[[[[0]]], [[[0]]]]]]) (Some 0)
     = Inr ([[[3, 6], [4, 8]]], [[[3], [4]]], [[[[[[0]], [[0]]], [[[0]], [[0]]]]]],
            [[[[[[1]]], [[[1]]]]]]) \<and>
   generate_step_next toy_lm 1 [[[5]]] [[True]] [[[[[[0]]], [[[0]]]]]] [[3, 4, 0, 0]]
       [[[[[[0]], [[0]]], [[[0]], [[0]]]]]] 2
     = Inr ([[4, 8]], [[4]], [[[[[[1]], [[1]]], [[[1]], [[1]]]]]]) \<and>
   (\<exists>lg3 h3.
      call_decoder_with_cache toy_lm [[[5]]] [[True]] [[4]]
        (Some [[[[[[0]], [[0]]], [[[0]], [[0]]]]]]) (Some 1) (Some [[[[[[0]]], [[[0]]]]]]) None
      = Inr (lg3, h3, [[[[[[1]], [[1]]], [[[1]], [[1]]]]]], [[[[[[0]]], [[[0]]]]]])) \<and>
   build_cache toy_lm [[3]] [[True]] [[3, 4, 0, 0]] =
     Inr ([[[3], [4], [0], [0]]], [[[3]]],
          [[[[[[1]], [[1]], [[1]], [[1]]], [[[1]], [[1]], [[1]], [[1]]]]]],
          [[[[[[1]]], [[[1]]]]]]) \<and>
   generate_step toy_lm
       \<lparr>encoder_token_ids = [[3]], encoder_padding_mask = [[True]],
        generate_inputs.decoder_token_ids = [[3, 4, 0, 0]],
        generate_inputs.decoder_padding_mask = [[True, True, False, False]]\<rparr> (Some 7)
     = Inr \<lparr>generate_outputs.decoder_token_ids = [[3, 4, 7, 7]],
            generate_outputs.decoder_padding_mask = [[True, True, True, False]]\<rparr>"
proof -
  have a: "call_decoder_with_cache toy_lm [[[5]]] [[True]] [[3, 4]]
       (Some [[[[[[0]], [[0]]], [[[0]], [[0]]]]]]) (Some 0) (Some [[[[[[0]]], [[[0]]]]]]) None
     = Inr ([[[3, 6], [4, 8]]], [[[3], [4]]], [[[[[[1]], [[1]]], [[[1]], [[1]]]]]],
            [[[[[[0]]], [[[0]]]]]])"
    by code_simp
  have b: "call_decoder_with_cache toy_lm [[[5]]] [[True]] [[3, 4]]
       (Some [[[[[[0]], [[0]]], [[[0]], [[0]]]]]]) None (Some [[[[[[0]]], [[[0]]]]]]) (Some 0)
     = Inr ([[[3, 6], [4, 8]]], [[[3], [4]]], [[[[[[0]], [[0]]], [[[0]], [[0]]]]]],
            [[[[[[1]]], [[[1]]]]]])"
    by code_simp
  have c: "generate_step_next toy_lm 1 [[[5]]] [[True]] [[[[[[0]]], [[[0]]]]]] [[3, 4, 0, 0]]
       [[[[[[0]], [[0]]], [[[0]], [[0]]]]]] 2
     = Inr ([[4, 8]], [[4]], [[[[[[1]], [[1]]], [[[1]], [[1]]]]]])"
    by code_simp
  have d: "build_cache toy_lm [[3]] [[True]] [[3, 4, 0, 0]] =
     Inr ([[[3], [4], [0], [0]]], [[[3]]],
          [[[[[[1]], [[1]], [[1]], [[1]]], [[[1]], [[1]], [[1]], [[1]]]]]],
          [[[[[[1]]], [[[1]]]]]])"
    by code_simp
  note t = cross_attention_cache_never_mutated
  let ?inputs = "\<lparr>encoder_token_ids = [[3]], encoder_padding_mask = [[True]],
        generate_inputs.decoder_token_ids = [[3, 4, 0, 0]],
        generate_inputs.decoder_padding_mask = [[True, True, False, False]]\<rparr>"
  have d': "build_cache toy_lm (encoder_token_ids ?inputs) (encoder_padding_mask ?inputs)
        (generate_inputs.decoder_token_ids ?inputs) =
     Inr ([[[3], [4], [0], [0]]], [[[3]]],
          [[[[[[1]], [[1]], [[1]], [[1]]], [[[1]], [[1]], [[1]], [[1]]]]]],
          [[[[[[1]]], [[[1]]]]]])"
    using d by simp
  have s: "sampler toy_lm
       (generate_step_next toy_lm (Suc 0) [[[3]]] [[True]] [[[[[[1]]], [[[1]]]]]])
       [[3, 4, 0, 0]] [[[[[[1]], [[1]], [[1]], [[1]]], [[[1]], [[1]], [[1]], [[1]]]]]] 2
       [[True, True, False, False]] (Some 7) [[[3], [4], [0], [0]]]
     = Inr [[3, 4, 7, 7]]"
    by code_simp
  have i: "start_index [[True, True, False, False]] = 2"
    by code_simp
  have m: "output_padding_mask [[3, 4, 7, 7]] [[True, True, False, False]] (Some 7) =
      Inr [[True, True, True, False]]"
    by code_simp
  have g: "generate_step toy_lm ?inputs (Some 7)
     = Inr \<lparr>generate_outputs.decoder_token_ids = [[3, 4, 7, 7]],
            generate_outputs.decoder_padding_mask = [[True, True, True, False]]\<rparr>"
    using t [THEN conjunct2, THEN conjunct2, THEN conjunct2, rule_format, OF d',
        of "Some 7"]
    by (simp add: s i m bind_def)
  have "\<exists>lg3 h3.
      call_decoder_with_cache toy_lm [[[5]]] [[True]] [[4]]
        (Some [[[[[[0]], [[0]]], [[[0]], [[0]]]]]]) (Some 1) (Some [[[[[[0]]], [[[0]]]]]]) None
      = Inr (lg3, h3, [[[[[[1]], [[1]]], [[[1]], [[1]]]]]], [[[[[[0]]], [[[0]]]]]])"
    using t [THEN conjunct2, THEN conjunct2, THEN conjunct1, rule_format, OF c]
    by (auto simp: repeat_tensor_def)
  with a b c d g show ?thesis by simp
qed

subsection \<open>Facts on \<^verbatim>\<open>int32\<close> counts, broadcasting and the cumulative sum\<close>

lemma int32_id: "0 \<le> k \<Longrightarrow> k < 2 ^ 31 \<Longrightarrow> int32 k = k"
  unfolding int32_def by (rule signed_take_bit_int_eq_self) simp_all

lemma sum_list_cast:
  "sum_list (map (\<lambda>b. if b then 1 else 0) row) = int (length (filter (\<lambda>b. b) row))"
  by (induction row) simp_all

lemma row_lengths_count:
  assumes "list_all (\<lambda>row. length row < 2 ^ 31) m"
  shows "row_lengths m = map (\<lambda>row. int (length (filter (\<lambda>b. b) row))) m"
  unfolding row_lengths_def
proof (rule map_cong [OF refl])
  fix row assume "row \<in> set m"
  with assms have "length row < 2 ^ 31" by (simp add: list_all_iff)
  then have "length (filter (\<lambda>b. b) row) < 2 ^ 31"
    by (rule le_less_trans [OF length_filter_le])
  then have "int (length (filter (\<lambda>b. b) row)) < 2 ^ 31" by simp
  then show "int32 (sum_list (map (\<lambda>b. if b then 1 else 0) row)) =
      int (length (filter (\<lambda>b. b) row))"
    by (simp add: sum_list_cast int32_id)
qed

lemma tf_reduce_min_Min: "xs \<noteq> [] \<Longrightarrow> tf_reduce_min xs = Min (set xs)"
  by (cases xs) (simp_all add: tf_reduce_min_def Min.set_eq_fold [symmetric])

lemma sequence_map_Inr: "sequence (map Inr xs) = Inr xs"
  by (induction xs) simp_all

lemma sequence_Inr_set:
  "sequence rs = Inr xs \<Longrightarrow> x \<in> set xs \<Longrightarrow> Inr x \<in> set rs"
proof (induction rs arbitrary: xs)
  case Nil
  then show ?case by simp
next
  case (Cons r rs)
  then show ?case by (cases r) (auto split: sum.splits)
qed

lemma broadcast_same_length:
  "length xs = length ys \<Longrightarrow> broadcast f xs ys = Inr (map2 f xs ys)"
  by (simp add: broadcast_def)

lemma broadcast_Inr_set:
  assumes "broadcast f xs ys = Inr zs" and "z \<in> set zs"
  shows "\<exists>x\<in>set xs. \<exists>y\<in>set ys. z = f x y"
proof -
  consider "length xs = length ys" | "length xs \<noteq> length ys" "length xs = 1"
    | "length xs \<noteq> length ys" "length xs \<noteq> 1" "length ys = 1"
    using assms(1) by (auto simp: broadcast_def split: if_splits)
  then show ?thesis
  proof cases
    case 1
    with assms have "z \<in> set (map2 f xs ys)" by (simp add: broadcast_def)
    then obtain x y where "(x, y) \<in> set (zip xs ys)" "z = f x y" by auto
    then show ?thesis by (auto dest: set_zip_leftD set_zip_rightD)
  next
    case 2
    then obtain x where "xs = [x]" by (cases xs) auto
    with 2 assms show ?thesis by (auto simp: broadcast_def)
  next
    case 3
    then obtain y where "ys = [y]" by (cases ys) auto
    with 3 assms show ?thesis by (auto simp: broadcast_def)
  qed
qed

lemma broadcast_length:
  "broadcast f xs ys = Inr zs \<Longrightarrow> length zs \<le> max (length xs) (length ys)"
  by (auto simp: broadcast_def split: if_splits)

lemma tf_logical_and_same_shape:
  assumes "list_all2 (\<lambda>r s. length r = length s) a b"
  shows "tf_logical_and a b = Inr (map2 (map2 (\<and>)) a b)"
proof -
  have len: "length a = length b" using assms by (rule list_all2_lengthD)
  have e: "map2 (broadcast (\<and>)) a b = map Inr (map2 (map2 (\<and>)) a b)"
    using assms by (induction rule: list_all2_induct) (simp_all add: broadcast_same_length)
  have "sequence (map2 (broadcast (\<and>)) a b) = Inr (map2 (map2 (\<and>)) a b)"
    unfolding e by (rule sequence_map_Inr)
  then show ?thesis
    unfolding tf_logical_and_def broadcast_same_length [OF len] by simp
qed

lemma tf_logical_and_row_length:
  assumes "tf_logical_and a b = Inr rows" and "row \<in> set rows"
    and "list_all (\<lambda>r. length r < n) a" and "list_all (\<lambda>r. length r < n) b"
  shows "length row < n"
proof -
  from assms(1) obtain rs where rs: "broadcast (broadcast (\<and>)) a b = Inr rs"
    and sq: "sequence rs = Inr rows"
    by (auto simp: tf_logical_and_def split: sum.splits)
  from sq assms(2) have "Inr row \<in> set rs" by (rule sequence_Inr_set)
  with rs obtain r s where "r \<in> set a" "s \<in> set b" "broadcast (\<and>) r s = Inr row"
    by (metis broadcast_Inr_set)
  moreover from this assms(3,4) have "length r < n" "length s < n"
    by (simp_all add: list_all_iff)
  ultimately show ?thesis using broadcast_length [of "(\<and>)" r s row] by simp
qed

lemma length_cumsum_exclusive [simp]: "length (cumsum_exclusive acc xs) = length xs"
  by (induction xs arbitrary: acc) simp_all

lemma cumsum_exclusive_nth:
  assumes "\<forall>x\<in>set xs. x = 0 \<or> x = 1" and "0 \<le> acc"
    and "acc + int (length xs) < 2 ^ 31" and "p < length xs"
  shows "cumsum_exclusive acc xs ! p = acc + sum_list (take p xs)"
  using assms
proof (induction xs arbitrary: acc p)
  case Nil
  then show ?case by simp
next
  case (Cons x xs)
  show ?case
  proof (cases p)
    case 0
    then show ?thesis by simp
  next
    case (Suc q)
    from Cons.prems have x: "x = 0 \<or> x = 1" by simp
    with Cons.prems have "0 \<le> acc + x" "acc + x < 2 ^ 31" by auto
    then have w: "int32 (acc + x) = acc + x" by (rule int32_id)
    have "cumsum_exclusive (acc + x) xs ! q = acc + x + sum_list (take q xs)"
    proof (rule Cons.IH)
      show "\<forall>x\<in>set xs. x = 0 \<or> x = 1" using Cons.prems by simp
      show "0 \<le> acc + x" by fact
      show "acc + x + int (length xs) < 2 ^ 31" using Cons.prems x by auto
      show "q < length xs" using Cons.prems Suc by simp
    qed
    then show ?thesis by (simp add: Suc w)
  qed
qed

text \<open>One row of the output mask: \<open>z\<close> is the row of the end-token locations.\<close>

lemma mask_row_nth:
  assumes "length z < 2 ^ 31" and "p < length z"
  shows "map (\<lambda>v. \<not> (v \<noteq> 0)) (cumsum_exclusive 0 (map (\<lambda>b. if b then 1 else 0) z)) ! p
         \<longleftrightarrow> (\<forall>q<p. \<not> z ! q)"
proof -
  let ?xs = "map (\<lambda>b. if b then 1 else (0::int)) z"
  have "cumsum_exclusive 0 ?xs ! p = 0 + sum_list (take p ?xs)"
    using assms by (intro cumsum_exclusive_nth) auto
  moreover have "sum_list (take p ?xs) = 0 \<longleftrightarrow> (\<forall>x\<in>set (take p ?xs). x = 0)"
    by (rule sum_list_nonneg_eq_0_iff) (auto dest!: in_set_takeD)
  moreover have "(\<forall>x\<in>set (take p ?xs). x = 0) \<longleftrightarrow> (\<forall>q<p. \<not> z ! q)"
    using assms(2) by (auto simp: set_conv_nth split: if_splits)
  ultimately show ?thesis using assms(2) by simp
qed

lemma output_padding_mask_same_shape:
  assumes "list_all2 (\<lambda>r s. length r = length s) ids m"
  shows "output_padding_mask ids m (Some e) =
     Inr (map2 (\<lambda>r s. map (\<lambda>v. \<not> (v \<noteq> 0))
                 (cumsum_exclusive 0
                    (map (\<lambda>b. if b then 1 else 0)
                       (map2 (\<and>) (map (\<lambda>t. t = e) r) (map Not s))))) ids m)"
proof -
  have "list_all2 (\<lambda>r s. length r = length s) (map (map (\<lambda>t. t = e)) ids) (map (map Not) m)"
    using assms by (simp add: list_all2_map1 list_all2_map2)
  then have "tf_logical_and (map (map (\<lambda>t. t = e)) ids) (map (map Not) m) =
      Inr (map2 (map2 (\<and>)) (map (map (\<lambda>t. t = e)) ids) (map (map Not) m))"
    by (rule tf_logical_and_same_shape)
  then show ?thesis
    by (simp add: output_padding_mask_def Let_def zip_map_map map_zip_map map_zip_map2 o_def
          split_def)
qed

lemma generate_step_mask:
  assumes "generate_step self inputs end_token = Inr out"
  shows "output_padding_mask (generate_outputs.decoder_token_ids out)
           (generate_inputs.decoder_padding_mask inputs) end_token =
         Inr (generate_outputs.decoder_padding_mask out)"
  using assms
  by (auto simp: generate_step_def Let_def split: sum.splits prod.splits)

subsection \<open>The starting index\<close>

text \<open>
  C2. For a batch of at least one row, of rows shorter than \<open>2^31\<close>, the index at which
  generation starts is the minimum over the rows of the number of true entries of the
  decoder padding mask, and it is the \<open>index\<close> argument of the one call of the sampler in
  \<open>generate_step\<close>. For two rows with 2 and 4 true entries it is 2.
\<close>

theorem start_index_is_minimum_row_length:
  assumes "generate_inputs.decoder_padding_mask inputs \<noteq> []"
    and "list_all (\<lambda>row. length row < 2 ^ 31) (generate_inputs.decoder_padding_mask inputs)"
    and "build_cache self (encoder_token_ids inputs) (encoder_padding_mask inputs)
           (generate_inputs.decoder_token_ids inputs) = Inr (hs, enc_h, sc, cc)"
  shows
    "start_index (generate_inputs.decoder_padding_mask inputs) =
       Min (set (map (\<lambda>row. int (length (filter (\<lambda>b. b) row)))
                   (generate_inputs.decoder_padding_mask inputs)))
   \<and> generate_step self inputs end_token =
       bind (sampler self
               (generate_step_next self (length (encoder_token_ids inputs)) enc_h
                  (encoder_padding_mask inputs) cc)
               (generate_inputs.decoder_token_ids inputs) sc
               (Min (set (map (\<lambda>row. int (length (filter (\<lambda>b. b) row)))
                           (generate_inputs.decoder_padding_mask inputs))))
               (generate_inputs.decoder_padding_mask inputs) end_token hs)
         (\<lambda>ids. bind (output_padding_mask ids (generate_inputs.decoder_padding_mask inputs)
                        end_token)
            (\<lambda>m. Inr \<lparr>generate_outputs.decoder_token_ids = ids,
                       generate_outputs.decoder_padding_mask = m\<rparr>))
   \<and> (\<forall>r1 r2. length (filter (\<lambda>b. b) r1) = 2 \<and> length (filter (\<lambda>b. b) r2) = 4
         \<longrightarrow> start_index [r1, r2] = 2)"
proof -
  let ?m = "generate_inputs.decoder_padding_mask inputs"
  have s: "start_index ?m = Min (set (map (\<lambda>row. int (length (filter (\<lambda>b. b) row))) ?m))"
    using assms(1) by (simp add: start_index_def row_lengths_count [OF assms(2)]
        tf_reduce_min_Min)
  have "start_index [r1, r2] = 2"
    if "length (filter (\<lambda>b. b) r1) = 2 \<and> length (filter (\<lambda>b. b) r2) = 4" for r1 r2
    using that
    by (simp add: start_index_def row_lengths_def tf_reduce_min_def sum_list_cast int32_id)
  with s generate_step_unfold [OF assms(3), of end_token] show ?thesis by simp
qed

theorem start_index_is_minimum_row_length_witness:
  "[[True, True, False, False], [True, True, True, True]] \<noteq> [] \<and>
   list_all (\<lambda>row. length row < 2 ^ 31) [[True, True, False, False], [True, True, True, True]] \<and>
   build_cache toy_lm [[3], [3]] [[True], [True]] [[3, 4, 0, 0], [3, 4, 5, 6]] =
     Inr ([[[3], [4], [0], [0]], [[3], [4], [5], [6]]], [[[3]], [[3]]],
          [[[[[[1]], [[1]], [[1]], [[1]]], [[[1]], [[1]], [[1]], [[1]]]]],
           [[[[[1]], [[1]], [[1]], [[1]]], [[[1]], [[1]], [[1]], [[1]]]]]],
          [[[[[[1]]], [[[1]]]]], [[[[[1]]], [[[1]]]]]]) \<and>
   length (filter (\<lambda>b. b) [True, True, False, False]) = 2 \<and>
   length (filter (\<lambda>b. b) [True, True, True, True]) = 4 \<and>
   start_index [[True, True, False, False], [True, True, True, True]] = 2 \<and>
   generate_step toy_lm
       \<lparr>encoder_token_ids = [[3], [3]], encoder_padding_mask = [[True], [True]],
        generate_inputs.decoder_token_ids = [[3, 4, 0, 0], [3, 4, 5, 6]],
        generate_inputs.decoder_padding_mask =
          [[True, True, False, False], [True, True, True, True]]\<rparr> None
     = Inr \<lparr>generate_outputs.decoder_token_ids = [[3, 4, 7, 7], [3, 4, 5, 6]],
            generate_outputs.decoder_padding_mask =
              [[True, True, True, True], [True, True, True, True]]\<rparr>"
proof -
  let ?inputs = "\<lparr>encoder_token_ids = [[3], [3]], encoder_padding_mask = [[True], [True]],
        generate_inputs.decoder_token_ids = [[3, 4, 0, 0], [3, 4, 5, 6]],
        generate_inputs.decoder_padding_mask =
          [[True, True, False, False], [True, True, True, True]]\<rparr>"
  have n: "generate_inputs.decoder_padding_mask ?inputs \<noteq> []" by simp
  have l: "list_all (\<lambda>row. length row < 2 ^ 31) (generate_inputs.decoder_padding_mask ?inputs)"
    by simp
  have b: "build_cache toy_lm [[3], [3]] [[True], [True]] [[3, 4, 0, 0], [3, 4, 5, 6]] =
     Inr ([[[3], [4], [0], [0]], [[3], [4], [5], [6]]], [[[3]], [[3]]],
          [[[[[[1]], [[1]], [[1]], [[1]]], [[[1]], [[1]], [[1]], [[1]]]]],
           [[[[[1]], [[1]], [[1]], [[1]]], [[[1]], [[1]], [[1]], [[1]]]]]],
          [[[[[[1]]], [[[1]]]]], [[[[[1]]], [[[1]]]]]])"
    by code_simp
  have g: "generate_step toy_lm ?inputs None
     = Inr \<lparr>generate_outputs.decoder_token_ids = [[3, 4, 7, 7], [3, 4, 5, 6]],
            generate_outputs.decoder_padding_mask =
              [[True, True, True, True], [True, True, True, True]]\<rparr>"
    by code_simp
  have b': "build_cache toy_lm (encoder_token_ids ?inputs) (encoder_padding_mask ?inputs)
           (generate_inputs.decoder_token_ids ?inputs) =
     Inr ([[[3], [4], [0], [0]], [[3], [4], [5], [6]]], [[[3]], [[3]]],
          [[[[[[1]], [[1]], [[1]], [[1]]], [[[1]], [[1]], [[1]], [[1]]]]],
           [[[[[1]], [[1]], [[1]], [[1]]], [[[1]], [[1]], [[1]], [[1]]]]]],
          [[[[[[1]]], [[[1]]]]], [[[[[1]]], [[[1]]]]]])"
    using b by simp
  note t = start_index_is_minimum_row_length [OF n l b', of None]
  from t have "start_index [[True, True, False, False], [True, True, True, True]] = 2"
    by simp
  with b g show ?thesis by simp
qed

subsection \<open>The output padding mask\<close>

lemma output_mask_nth:
  assumes gs: "generate_step self inputs (Some e) = Inr out"
    and shape: "list_all2 (\<lambda>r s. length r = length s)
                  (generate_outputs.decoder_token_ids out)
                  (generate_inputs.decoder_padding_mask inputs)"
    and bound: "list_all (\<lambda>row. length row < 2 ^ 31) (generate_outputs.decoder_token_ids out)"
    and r: "r < length (generate_outputs.decoder_token_ids out)"
    and p: "p < length (generate_outputs.decoder_token_ids out ! r)"
  shows "length (generate_outputs.decoder_padding_mask out) =
           length (generate_outputs.decoder_token_ids out)"
    and "length (generate_outputs.decoder_padding_mask out ! r) =
           length (generate_outputs.decoder_token_ids out ! r)"
    and "generate_outputs.decoder_padding_mask out ! r ! p \<longleftrightarrow>
           (\<forall>q<p. \<not> (generate_outputs.decoder_token_ids out ! r ! q = e \<and>
                      \<not> generate_inputs.decoder_padding_mask inputs ! r ! q))"
proof -
  let ?ids = "generate_outputs.decoder_token_ids out"
  let ?m = "generate_inputs.decoder_padding_mask inputs"
  let ?row = "\<lambda>r s. map (\<lambda>v. \<not> (v \<noteq> 0))
                 (cumsum_exclusive 0
                    (map (\<lambda>b. if b then 1 else 0)
                       (map2 (\<and>) (map (\<lambda>t. t = e) r) (map Not s))))"
  have len: "length ?ids = length ?m" using shape by (rule list_all2_lengthD)
  have lr: "length (?ids ! r) = length (?m ! r)"
    using shape r by (simp add: list_all2_conv_all_nth)
  have "output_padding_mask ?ids ?m (Some e) = Inr (generate_outputs.decoder_padding_mask out)"
    using gs by (rule generate_step_mask)
  then have eq: "generate_outputs.decoder_padding_mask out = map2 ?row ?ids ?m"
    by (simp add: output_padding_mask_same_shape [OF shape])
  show "length (generate_outputs.decoder_padding_mask out) = length ?ids"
    by (simp add: eq len)
  have row: "generate_outputs.decoder_padding_mask out ! r = ?row (?ids ! r) (?m ! r)"
    using r len by (simp add: eq)
  show "length (generate_outputs.decoder_padding_mask out ! r) = length (?ids ! r)"
    by (simp add: row lr)
  let ?z = "map2 (\<and>) (map (\<lambda>t. t = e) (?ids ! r)) (map Not (?m ! r))"
  have lz: "length ?z = length (?ids ! r)" by (simp add: lr)
  have "length (?ids ! r) < 2 ^ 31" using bound r by (simp add: list_all_length)
  then have "?row (?ids ! r) (?m ! r) ! p \<longleftrightarrow> (\<forall>q<p. \<not> ?z ! q)"
    using p lz by (intro mask_row_nth) simp_all
  moreover have "?z ! q \<longleftrightarrow> (?ids ! r ! q = e \<and> \<not> ?m ! r ! q)" if "q < p" for q
    using that p lr by simp
  ultimately show "generate_outputs.decoder_padding_mask out ! r ! p \<longleftrightarrow>
           (\<forall>q<p. \<not> (?ids ! r ! q = e \<and> \<not> ?m ! r ! q))"
    by (simp add: row)
qed

text \<open>
  C3. Let \<open>generate_step\<close> return with the end token \<open>e\<close>, the token ids having the shape
  of the decoder padding mask of the inputs and rows shorter than \<open>2^31\<close>. If \<open>f\<close> is the
  first position of row \<open>r\<close> that holds the end token where the mask of the inputs is
  false, then the mask returned is true at every position up to \<open>f\<close>, \<open>f\<close> included, and
  false at every position after \<open>f\<close>, whatever the tokens there.
\<close>

theorem output_mask_ends_at_first_end_token:
  assumes "generate_step self inputs (Some e) = Inr out"
    and "list_all2 (\<lambda>r s. length r = length s)
           (generate_outputs.decoder_token_ids out)
           (generate_inputs.decoder_padding_mask inputs)"
    and "list_all (\<lambda>row. length row < 2 ^ 31) (generate_outputs.decoder_token_ids out)"
    and "r < length (generate_outputs.decoder_token_ids out)"
    and "f < length (generate_outputs.decoder_token_ids out ! r)"
    and "generate_outputs.decoder_token_ids out ! r ! f = e"
    and "\<not> generate_inputs.decoder_padding_mask inputs ! r ! f"
    and "\<forall>q<f. \<not> (generate_outputs.decoder_token_ids out ! r ! q = e \<and>
                  \<not> generate_inputs.decoder_padding_mask inputs ! r ! q)"
    and "p < length (generate_outputs.decoder_token_ids out ! r)"
  shows "length (generate_outputs.decoder_padding_mask out) =
           length (generate_outputs.decoder_token_ids out)
       \<and> length (generate_outputs.decoder_padding_mask out ! r) =
           length (generate_outputs.decoder_token_ids out ! r)
       \<and> (generate_outputs.decoder_padding_mask out ! r ! p \<longleftrightarrow> p \<le> f)"
proof -
  note n = output_mask_nth [OF assms(1-4) assms(9)]
  have "(\<forall>q<p. \<not> (generate_outputs.decoder_token_ids out ! r ! q = e \<and>
                  \<not> generate_inputs.decoder_padding_mask inputs ! r ! q)) \<longleftrightarrow> p \<le> f"
  proof
    assume a: "\<forall>q<p. \<not> (generate_outputs.decoder_token_ids out ! r ! q = e \<and>
                  \<not> generate_inputs.decoder_padding_mask inputs ! r ! q)"
    show "p \<le> f"
    proof (rule ccontr)
      assume "\<not> p \<le> f"
      then have "f < p" by simp
      with a assms(6,7) show False by blast
    qed
  next
    assume "p \<le> f"
    with assms(8) show "\<forall>q<p. \<not> (generate_outputs.decoder_token_ids out ! r ! q = e \<and>
                  \<not> generate_inputs.decoder_padding_mask inputs ! r ! q)"
      by auto
  qed
  with n show ?thesis by simp
qed

theorem output_mask_ends_at_first_end_token_witness:
  "generate_step toy_lm
       \<lparr>encoder_token_ids = [[3]], encoder_padding_mask = [[True]],
        generate_inputs.decoder_token_ids = [[3, 7, 0, 0, 0]],
        generate_inputs.decoder_padding_mask = [[True, True, False, False, False]]\<rparr> (Some 7)
     = Inr \<lparr>generate_outputs.decoder_token_ids = [[3, 7, 7, 7, 7]],
            generate_outputs.decoder_padding_mask = [[True, True, True, False, False]]\<rparr> \<and>
   list_all2 (\<lambda>r s. length r = length s) [[3, 7, 7, 7, 7 :: int]]
     [[True, True, False, False, False]] \<and>
   list_all (\<lambda>row. length row < 2 ^ 31) [[3, 7, 7, 7, 7 :: int]] \<and>
   (0::nat) < length [[3, 7, 7, 7, 7 :: int]] \<and>
   (2::nat) < length ([[3, 7, 7, 7, 7 :: int]] ! 0) \<and>
   [[3, 7, 7, 7, 7 :: int]] ! 0 ! 2 = 7 \<and>
   \<not> [[True, True, False, False, False]] ! 0 ! 2 \<and>
   \<not> ([[3, 7, 7, 7, 7 :: int]] ! 0 ! 0 = 7 \<and> \<not> [[True, True, False, False, False]] ! 0 ! 0) \<and>
   \<not> ([[3, 7, 7, 7, 7 :: int]] ! 0 ! 1 = 7 \<and> \<not> [[True, True, False, False, False]] ! 0 ! 1) \<and>
   (3::nat) < length ([[3, 7, 7, 7, 7 :: int]] ! 0) \<and>
   [[True, True, True, False, False]] ! 0 ! 2 \<and>
   \<not> [[True, True, True, False, False]] ! 0 ! 3"
proof -
  let ?inputs = "\<lparr>encoder_token_ids = [[3]], encoder_padding_mask = [[True]],
        generate_inputs.decoder_token_ids = [[3, 7, 0, 0, 0]],
        generate_inputs.decoder_padding_mask = [[True, True, False, False, False]]\<rparr>"
  let ?out = "\<lparr>generate_outputs.decoder_token_ids = [[3, 7, 7, 7, 7]],
            generate_outputs.decoder_padding_mask = [[True, True, True, False, False]]\<rparr>"
  have g: "generate_step toy_lm ?inputs (Some 7) = Inr ?out"
    by code_simp
  have q: "\<forall>q<2. \<not> (generate_outputs.decoder_token_ids ?out ! 0 ! q = 7 \<and>
                  \<not> generate_inputs.decoder_padding_mask ?inputs ! 0 ! q)"
    by (simp add: less_Suc_eq numeral_2_eq_2)
  have "generate_outputs.decoder_padding_mask ?out ! 0 ! 3 \<longleftrightarrow> (3::nat) \<le> 2"
    using output_mask_ends_at_first_end_token [OF g _ _ _ _ _ _ q, of 3] by simp
  moreover have "generate_outputs.decoder_padding_mask ?out ! 0 ! 2 \<longleftrightarrow> (2::nat) \<le> 2"
    using output_mask_ends_at_first_end_token [OF g _ _ _ _ _ _ q, of 2] by simp
  ultimately show ?thesis using g by simp
qed

text \<open>
  C4. Whether an end token is given or not, every row of the decoder padding mask that
  \<open>generate_step\<close> returns is monotonic: false at a position \<open>p\<close>, it is false at every
  position after \<open>p\<close>. The rows of the token ids returned and of the mask of the inputs
  are shorter than \<open>2^31\<close>; the two need not have the same shape.
\<close>

theorem output_mask_monotonic:
  assumes "generate_step self inputs end_token = Inr out"
    and "list_all (\<lambda>row. length row < 2 ^ 31) (generate_outputs.decoder_token_ids out)"
    and "list_all (\<lambda>row. length row < 2 ^ 31) (generate_inputs.decoder_padding_mask inputs)"
    and "r < length (generate_outputs.decoder_padding_mask out)"
    and "p < p'" and "p' < length (generate_outputs.decoder_padding_mask out ! r)"
    and "\<not> generate_outputs.decoder_padding_mask out ! r ! p"
  shows "\<not> generate_outputs.decoder_padding_mask out ! r ! p'"
proof (cases end_token)
  case None
  from generate_step_mask [OF assms(1)] None
  have "generate_outputs.decoder_padding_mask out =
      map (map (\<lambda>_. True)) (generate_outputs.decoder_token_ids out)"
    by (simp add: output_padding_mask_def)
  with assms(4-7) show ?thesis by simp
next
  case (Some e)
  let ?f = "\<lambda>z. map (\<lambda>v. \<not> (v \<noteq> 0)) (cumsum_exclusive 0 (map (\<lambda>b. if b then 1 else 0) z))"
  from generate_step_mask [OF assms(1)] Some obtain locs where
    locs: "tf_logical_and (map (map (\<lambda>t. t = e)) (generate_outputs.decoder_token_ids out))
             (map (map Not) (generate_inputs.decoder_padding_mask inputs)) = Inr locs"
    and eq: "generate_outputs.decoder_padding_mask out = map ?f locs"
    by (auto simp: output_padding_mask_def Let_def o_def split: sum.splits)
  have r: "r < length locs" using assms(4) by (simp add: eq)
  have lz: "length (locs ! r) < 2 ^ 31"
  proof (rule tf_logical_and_row_length [OF locs])
    show "locs ! r \<in> set locs" using r by simp
    show "list_all (\<lambda>r. length r < 2 ^ 31)
            (map (map (\<lambda>t. t = e)) (generate_outputs.decoder_token_ids out))"
      using assms(2) by (simp add: list_all_iff)
    show "list_all (\<lambda>r. length r < 2 ^ 31)
            (map (map Not) (generate_inputs.decoder_padding_mask inputs))"
      using assms(3) by (simp add: list_all_iff)
  qed
  have row: "generate_outputs.decoder_padding_mask out ! r = ?f (locs ! r)"
    using r by (simp add: eq)
  have p': "p' < length (locs ! r)" using assms(6) by (simp add: row)
  with assms(5) have p: "p < length (locs ! r)" by simp
  from assms(7) have "\<not> (\<forall>q<p. \<not> locs ! r ! q)"
    unfolding row using mask_row_nth [OF lz p] by simp
  with assms(5) have "\<not> (\<forall>q<p'. \<not> locs ! r ! q)" by (meson less_trans)
  then show ?thesis
    unfolding row using mask_row_nth [OF lz p'] by simp
qed

theorem output_mask_monotonic_witness:
  "generate_step toy_lm
       \<lparr>encoder_token_ids = [[3]], encoder_padding_mask = [[True]],
        generate_inputs.decoder_token_ids = [[3, 7, 0, 0, 0]],
        generate_inputs.decoder_padding_mask = [[True, True, False, False, False]]\<rparr> (Some 7)
     = Inr \<lparr>generate_outputs.decoder_token_ids = [[3, 7, 7, 7, 7]],
            generate_outputs.decoder_padding_mask = [[True, True, True, False, False]]\<rparr> \<and>
   list_all (\<lambda>row. length row < 2 ^ 31) [[3, 7, 7, 7, 7 :: int]] \<and>
   list_all (\<lambda>row. length row < 2 ^ 31) [[True, True, False, False, False]] \<and>
   (0::nat) < length [[True, True, True, False, False]] \<and>
   (3::nat) < 4 \<and>
   (4::nat) < length ([[True, True, True, False, False]] ! 0) \<and>
   \<not> [[True, True, True, False, False]] ! 0 ! 3 \<and>
   \<not> [[True, True, True, False, False]] ! 0 ! 4"
proof -
  let ?inputs = "\<lparr>encoder_token_ids = [[3]], encoder_padding_mask = [[True]],
        generate_inputs.decoder_token_ids = [[3, 7, 0, 0, 0]],
        generate_inputs.decoder_padding_mask = [[True, True, False, False, False]]\<rparr>"
  let ?out = "\<lparr>generate_outputs.decoder_token_ids = [[3, 7, 7, 7, 7]],
            generate_outputs.decoder_padding_mask = [[True, True, True, False, False]]\<rparr>"
  have g: "generate_step toy_lm ?inputs (Some 7) = Inr ?out"
    by code_simp
  have "\<not> generate_outputs.decoder_padding_mask ?out ! 0 ! 4"
    using output_mask_monotonic [OF g, of 0 3 4] by simp
  then show ?thesis using g by simp
qed

subsection \<open>Generation without an end token\<close>

lemma call_decoder_with_cache_backbone:
  "backbone self' = backbone self \<Longrightarrow>
   call_decoder_with_cache self' = call_decoder_with_cache self"
  by (intro ext) (simp add: call_decoder_with_cache_def)

lemma generate_step_next_backbone:
  assumes "backbone self' = backbone self"
  shows "generate_step_next self' = generate_step_next self"
  apply (intro ext)
  unfolding generate_step_next_def call_decoder_with_cache_backbone [OF assms]
  by (rule refl)

lemma build_cache_backbone:
  assumes "backbone self' = backbone self"
  shows "build_cache self' = build_cache self"
  apply (intro ext)
  unfolding build_cache_def initialize_cache_def call_encoder_def assms
    call_decoder_with_cache_backbone [OF assms]
  by (rule refl)

lemma generate_step_backbone_sampler:
  assumes "backbone self' = backbone self" and "sampler self' = sampler self"
  shows "generate_step self' = generate_step self"
  apply (intro ext)
  unfolding generate_step_def build_cache_backbone [OF assms(1)]
    generate_step_next_backbone [OF assms(1)] assms(2)
  by (rule refl)


lemma make_generate_function_frame:
  assumes "make_generate_function self = (f, self')"
  shows "backbone self' = backbone self" and "sampler self' = sampler self"
    and "preprocessor self' = preprocessor self"
  using assms
  by (auto simp: make_generate_function_def Let_def split: option.splits)

lemma generate_unfold:
  "fst (generate self inputs max_length) =
     bind (normalize_generate_inputs inputs) (\<lambda>(batches, input_is_scalar).
     bind (sequence (map (\<lambda>x.
             bind (case preprocessor self of
                     None \<Rightarrow> as_generate_inputs x
                   | Some p \<Rightarrow> generate_preprocess p x max_length)
               (\<lambda>gi. generate_step self gi
                        (case preprocessor self of None \<Rightarrow> None | Some p \<Rightarrow> end_token_id p)))
             batches)) (\<lambda>outputs.
     bind (sequence (map (\<lambda>out. case preprocessor self of
                                  None \<Rightarrow> Inr (OutDict out)
                                | Some p \<Rightarrow> map_sum id OutTensor (generate_postprocess p out))
             outputs)) (\<lambda>outputs.
       normalize_generate_outputs outputs input_is_scalar)))"
proof -
  obtain f self' where m: "make_generate_function self = (f, self')"
    by (cases "make_generate_function self")
  note fr = make_generate_function_frame [OF m]
  have g: "call_generate_fn f self' = generate_step self"
    by (intro ext)
      (simp add: call_generate_fn_def generate_step_backbone_sampler [OF fr(1,2)]
         split: generate_fn.splits)
  show ?thesis
    by (simp add: generate_def m Let_def fr(3) g)
qed








subsection \<open>The stored generate function\<close>

text \<open>
  C10, as amended. A call of \<open>compile\<close> that returns leaves no stored generate function,
  whatever was stored before. The next \<open>make_generate_function\<close> builds the handle from
  the configuration that \<open>compile\<close> has set (the bound method when running eagerly, else
  the compiled function with the \<open>jit_compile\<close> flag of the object) and stores it; every
  later call returns the stored handle and leaves the object as it is, until \<open>compile\<close> is
  called again. A call of \<open>compile\<close> that raises leaves the stored generate function and the
  sampler as they were.
\<close>

theorem compile_clears_generate_function:
  "(keras_raises = None \<and> get_sampler sampler_arg = Inr s \<longrightarrow>
      compile get_sampler is_xla_compatible keras_raises re jc sampler_arg self =
        (Inr (),
         self\<lparr>run_eagerly := re, jit_compile := Some (jc \<and> is_xla_compatible self \<and> \<not> re),
              sampler := s, generate_function := None\<rparr>))
 \<and> (fst (compile get_sampler is_xla_compatible keras_raises re jc sampler_arg self) = Inr u
      \<longrightarrow>
      (let self1 = snd (compile get_sampler is_xla_compatible keras_raises re jc sampler_arg
                          self);
           f1 = fst (make_generate_function self1);
           self2 = snd (make_generate_function self1);
           f2 = fst (make_generate_function self2);
           self3 = snd (make_generate_function self2)
       in generate_function self1 = None
        \<and> get_sampler sampler_arg = Inr (sampler self1)
        \<and> f1 = (if re then Generate_step else Tf_function (jc \<and> is_xla_compatible self))
        \<and> generate_function self2 = Some f1
        \<and> sampler self2 = sampler self1
        \<and> f2 = f1 \<and> self3 = self2))
 \<and> (fst (compile get_sampler is_xla_compatible keras_raises re jc sampler_arg self) = Inl e
      \<longrightarrow>
      generate_function
        (snd (compile get_sampler is_xla_compatible keras_raises re jc sampler_arg self)) =
        generate_function self
      \<and> sampler
          (snd (compile get_sampler is_xla_compatible keras_raises re jc sampler_arg self)) =
          sampler self)
 \<and> (generate_function self = Some f \<longrightarrow> make_generate_function self = (f, self))
 \<and> (generate_function self = None \<longrightarrow>
      make_generate_function self =
        (if run_eagerly self then Generate_step
         else Tf_function (case jit_compile self of None \<Rightarrow> True | Some j \<Rightarrow> j),
         self\<lparr>generate_function :=
                Some (if run_eagerly self then Generate_step
                      else Tf_function (case jit_compile self of None \<Rightarrow> True | Some j \<Rightarrow> j))\<rparr>))"
  by (auto simp: compile_def keras_model_compile_def make_generate_function_def Let_def
           split: option.splits sum.splits)

theorem compile_clears_generate_function_witness:
  "generate_function (toy_lm\<lparr>generate_function := Some Generate_step\<rparr>) = Some Generate_step \<and>
   make_generate_function (toy_lm\<lparr>generate_function := Some Generate_step\<rparr>) =
     (Generate_step, toy_lm\<lparr>generate_function := Some Generate_step\<rparr>) \<and>
   compile (\<lambda>_. Inr toy_sampler) (\<lambda>_. True) None False True ()
       (toy_lm\<lparr>generate_function := Some Generate_step\<rparr>) = (Inr (), toy_lm) \<and>
   generate_function toy_lm = None \<and>
   make_generate_function toy_lm =
     (Tf_function True, toy_lm\<lparr>generate_function := Some (Tf_function True)\<rparr>) \<and>
   make_generate_function (toy_lm\<lparr>generate_function := Some (Tf_function True)\<rparr>) =
     (Tf_function True, toy_lm\<lparr>generate_function := Some (Tf_function True)\<rparr>) \<and>
   fst (compile (\<lambda>_. Inl ValueError) (\<lambda>_. True) None False True ()
          (toy_lm\<lparr>generate_function := Some Generate_step\<rparr>)) = Inl ValueError \<and>
   generate_function
     (snd (compile (\<lambda>_. Inl ValueError) (\<lambda>_. True) None False True ()
             (toy_lm\<lparr>generate_function := Some Generate_step\<rparr>))) = Some Generate_step"
proof -
  let ?stale = "toy_lm\<lparr>generate_function := Some Generate_step\<rparr>"
  let ?bad = "compile (\<lambda>_. Inl ValueError) (\<lambda>_. True) None False True () ?stale"
  note t = compile_clears_generate_function
  have s: "generate_function ?stale = Some Generate_step" by simp
  from t [THEN conjunct2, THEN conjunct2, THEN conjunct2, THEN conjunct1, rule_format, OF s]
  have m0: "make_generate_function ?stale = (Generate_step, ?stale)" .
  have "compile (\<lambda>_. Inr toy_sampler) (\<lambda>_. True) None False True () ?stale =
      (Inr (),
       ?stale\<lparr>run_eagerly := False, jit_compile := Some (True \<and> True \<and> \<not> False),
               sampler := toy_sampler, generate_function := None\<rparr>)"
    by (rule t [THEN conjunct1, rule_format]) simp
  then have c: "compile (\<lambda>_. Inr toy_sampler) (\<lambda>_. True) None False True () ?stale =
      (Inr (), toy_lm)"
    by (simp add: toy_lm_def)
  have n: "generate_function toy_lm = None" by (simp add: toy_lm_def)
  from t [THEN conjunct2, THEN conjunct2, THEN conjunct2, THEN conjunct2, rule_format, OF n]
  have m1: "make_generate_function toy_lm =
      (Tf_function True, toy_lm\<lparr>generate_function := Some (Tf_function True)\<rparr>)"
    by (simp add: toy_lm_def)
  have s2: "generate_function (toy_lm\<lparr>generate_function := Some (Tf_function True)\<rparr>) =
      Some (Tf_function True)" by simp
  from t [THEN conjunct2, THEN conjunct2, THEN conjunct2, THEN conjunct1, rule_format, OF s2]
  have m2: "make_generate_function (toy_lm\<lparr>generate_function := Some (Tf_function True)\<rparr>) =
     (Tf_function True, toy_lm\<lparr>generate_function := Some (Tf_function True)\<rparr>)" .
  have b: "fst ?bad = Inl ValueError"
    by (simp add: compile_def keras_model_compile_def)
  from t [THEN conjunct2, THEN conjunct2, THEN conjunct1, rule_format, OF b]
  have k: "generate_function (snd ?bad) = Some Generate_step" by simp
  from s m0 c n m1 m2 b k show ?thesis by simp
qed

theorem compile_raising_keeps_stale_handle_counterexample:
  "run_eagerly (toy_lm\<lparr>generate_function := Some (Tf_function True)\<rparr>) = False \<and>
   fst (compile (\<lambda>_. Inl ValueError) (\<lambda>_. True) None True True ()
          (toy_lm\<lparr>generate_function := Some (Tf_function True)\<rparr>)) = Inl ValueError \<and>
   run_eagerly
     (snd (compile (\<lambda>_. Inl ValueError) (\<lambda>_. True) None True True ()
             (toy_lm\<lparr>generate_function := Some (Tf_function True)\<rparr>))) = True \<and>
   generate_function
     (snd (compile (\<lambda>_. Inl ValueError) (\<lambda>_. True) None True True ()
             (toy_lm\<lparr>generate_function := Some (Tf_function True)\<rparr>))) \<noteq> None \<and>
   fst (make_generate_function
     (snd (compile (\<lambda>_. Inl ValueError) (\<lambda>_. True) None True True ()
             (toy_lm\<lparr>generate_function := Some (Tf_function True)\<rparr>)))) = Tf_function True"
  by (simp add: compile_def keras_model_compile_def make_generate_function_def toy_lm_def)

subsection \<open>Scalar inputs and outputs of \<open>generate\<close>\<close>

lemma normalize_dict_strings:
  "normalize_dict (map (\<lambda>(k, s). (k, PyStr s)) kvs) flag =
     Inr (map (\<lambda>(k, s). (k, PyTensor (Tensor TF_string (Arr [Elem (S s)])))) kvs,
          if kvs = [] then flag else True)"
proof (induction kvs arbitrary: flag)
  case Nil
  then show ?case by simp
next
  case (Cons kv kvs)
  obtain k s where kv: "kv = (k, s)" by (cases kv)
  show ?case by (simp add: kv Cons.IH normalize_input_def)
qed

lemma normalize_dict_batched:
  "normalize_dict (map (\<lambda>(k, dt, xs). (k, PyTensor (Tensor dt (Arr xs)))) kvs) False =
     Inr (map (\<lambda>(k, dt, xs). (k, PyTensor (Tensor dt (Arr xs)))) kvs, False)"
proof (induction kvs)
  case Nil
  then show ?case by simp
next
  case (Cons kv kvs)
  obtain k dt xs where kv: "kv = (k, dt, xs)" by (cases kv)
  show ?case by (simp add: kv Cons.IH normalize_input_def)
qed

lemma tf_pack_Arr: "tf_pack ts = Inr t \<Longrightarrow> \<exists>xs. data t = Arr xs"
  by (auto simp: tf_pack_def split: list.splits if_splits)

lemma normalize_input_list:
  assumes "tf_convert_to_tensor (PyList xs) = Inr t"
  shows "normalize_input (PyList xs) = Inr (PyTensor t, False)"
proof -
  from assms obtain ts where "tf_pack ts = Inr t" by (auto split: sum.splits)
  then obtain ys where "data t = Arr ys" by (auto dest: tf_pack_Arr)
  then have "t = Tensor (dtype t) (Arr ys)" by (cases t) simp
  then obtain dt where t: "t = Tensor dt (Arr ys)" ..
  from assms show ?thesis unfolding normalize_input_def by (simp add: t)
qed

lemma normalize_output_single:
  "normalize_output flag [t] =
     bind (if flag then tf_squeeze_axis0 t else Inr t)
       (\<lambda>x. if dtype x = TF_string then tensor_to_string_list x else Inr (HostNdarray x))"
  by (simp add: normalize_output_def tf_concat_axis0_def bind_def)

text \<open>
  C9. A string, or a tensor of rank 0, is given a batch axis of dimension 1, and
  \<open>input_is_scalar\<close> is set; so it is for a dictionary of strings. A tensor of rank 1 or
  more, a list, a dictionary of such tensors and a dataset are passed as they are, and
  \<open>input_is_scalar\<close> is not set. When \<open>input_is_scalar\<close> is set, the output of the one
  batch, of shape \<open>[1, ...]\<close>, loses its batch axis before it is converted to a host value
  (a string tensor, or each of the two tensors of the dictionary of \<open>generate_step\<close>); when
  it is not, the output is converted as it is. Hence \<open>generate\<close> with a preprocessor
  maps a single string to a single string where the three passes make one output row of
  the batch of one, and maps a batch of strings to the string list of the whole output
  tensor.
\<close>

theorem scalar_input_scalar_output:
  "normalize_generate_inputs (PyStr s) =
     Inr ([PyTensor (Tensor TF_string (Arr [Elem (S s)]))], True)
 \<and> normalize_generate_inputs (PyTensor (Tensor dt (Elem v))) =
     Inr ([PyTensor (Tensor dt (Arr [Elem v]))], True)
 \<and> normalize_generate_inputs (PyDict (map (\<lambda>(k, s). (k, PyStr s)) (kv # kvs))) =
     Inr ([PyDict (map (\<lambda>(k, s). (k, PyTensor (Tensor TF_string (Arr [Elem (S s)]))))
                    (kv # kvs))], True)
 \<and> normalize_generate_inputs (PyTensor (Tensor dt (Arr xs))) =
     Inr ([PyTensor (Tensor dt (Arr xs))], False)
 \<and> (tf_convert_to_tensor (PyList ys) = Inr t \<longrightarrow>
      normalize_generate_inputs (PyList ys) = Inr ([PyTensor t], False))
 \<and> normalize_generate_inputs
       (PyDict (map (\<lambda>(k, dt, xs). (k, PyTensor (Tensor dt (Arr xs)))) tvs)) =
     Inr ([PyDict (map (\<lambda>(k, dt, xs). (k, PyTensor (Tensor dt (Arr xs)))) tvs)], False)
 \<and> normalize_generate_inputs (PyDataset batches) = Inr (batches, False)
 \<and> normalize_generate_outputs [OutTensor (Tensor dt (Arr [y]))] True =
     (if dt = TF_string then tensor_to_string_list (Tensor dt y)
      else Inr (HostNdarray (Tensor dt y)))
 \<and> normalize_generate_outputs [OutTensor u] False =
     (if dtype u = TF_string then tensor_to_string_list u else Inr (HostNdarray u))
 \<and> normalize_generate_outputs
       [OutDict \<lparr>generate_outputs.decoder_token_ids = [row],
                 generate_outputs.decoder_padding_mask = [mrow]\<rparr>] True =
     Inr (HostDict
       [(''decoder_token_ids'',
         HostNdarray (Tensor TF_int32 (Arr (map (\<lambda>v. Elem (I v)) row)))),
        (''decoder_padding_mask'',
         HostNdarray (Tensor TF_bool (Arr (map (\<lambda>v. Elem (B v)) mrow))))])
 \<and> normalize_generate_outputs [OutDict d] False =
     Inr (HostDict
       [(''decoder_token_ids'',
         HostNdarray (tensor_of_ints (generate_outputs.decoder_token_ids d))),
        (''decoder_padding_mask'',
         HostNdarray (tensor_of_bools (generate_outputs.decoder_padding_mask d)))])
 \<and> (preprocessor self = Some pp \<and>
     generate_preprocess pp (PyTensor (Tensor TF_string (Arr [Elem (S s)]))) max_length
       = Inr x \<and>
     generate_step self x (end_token_id pp) = Inr out \<and>
     generate_postprocess pp out = Inr (Tensor TF_string (Arr [Elem (S r)]))
     \<longrightarrow> fst (generate self (PyStr s) max_length) = Inr (HostStr r))
 \<and> (preprocessor self = Some pp \<and>
     generate_preprocess pp (PyTensor (Tensor TF_string (Arr xs))) max_length = Inr x' \<and>
     generate_step self x' (end_token_id pp) = Inr out' \<and>
     generate_postprocess pp out' = Inr (Tensor TF_string rs)
     \<longrightarrow> fst (generate self (PyTensor (Tensor TF_string (Arr xs))) max_length) =
          tensor_to_string_list (Tensor TF_string rs))"
proof (intro conjI impI)
  show "normalize_generate_inputs (PyStr s) =
     Inr ([PyTensor (Tensor TF_string (Arr [Elem (S s)]))], True)"
    by (simp add: normalize_generate_inputs_def normalize_input_def)
  show "normalize_generate_inputs (PyTensor (Tensor dt (Elem v))) =
     Inr ([PyTensor (Tensor dt (Arr [Elem v]))], True)"
    by (simp add: normalize_generate_inputs_def normalize_input_def)
  show "normalize_generate_inputs (PyDict (map (\<lambda>(k, s). (k, PyStr s)) (kv # kvs))) =
     Inr ([PyDict (map (\<lambda>(k, s). (k, PyTensor (Tensor TF_string (Arr [Elem (S s)]))))
                    (kv # kvs))], True)"
    unfolding normalize_generate_inputs_def
    by (simp add: normalize_dict_strings [of "kv # kvs"] del: list.map)
  show "normalize_generate_inputs (PyTensor (Tensor dt (Arr xs))) =
     Inr ([PyTensor (Tensor dt (Arr xs))], False)"
    by (simp add: normalize_generate_inputs_def normalize_input_def)
  show "normalize_generate_inputs
       (PyDict (map (\<lambda>(k, dt, xs). (k, PyTensor (Tensor dt (Arr xs)))) tvs)) =
     Inr ([PyDict (map (\<lambda>(k, dt, xs). (k, PyTensor (Tensor dt (Arr xs)))) tvs)], False)"
    unfolding normalize_generate_inputs_def by (simp add: normalize_dict_batched)
  show "normalize_generate_inputs (PyDataset batches) = Inr (batches, False)"
    by (simp add: normalize_generate_inputs_def)
  show "normalize_generate_outputs [OutTensor (Tensor dt (Arr [y]))] True =
     (if dt = TF_string then tensor_to_string_list (Tensor dt y)
      else Inr (HostNdarray (Tensor dt y)))"
    by (simp add: normalize_generate_outputs_def output_tensors_def normalize_output_single
          tf_squeeze_axis0_def bind_def)
  show "normalize_generate_outputs [OutTensor u] False =
     (if dtype u = TF_string then tensor_to_string_list u else Inr (HostNdarray u))"
    by (simp add: normalize_generate_outputs_def output_tensors_def normalize_output_single
          bind_def)
  show "normalize_generate_outputs
       [OutDict \<lparr>generate_outputs.decoder_token_ids = [row],
                 generate_outputs.decoder_padding_mask = [mrow]\<rparr>] True =
     Inr (HostDict
       [(''decoder_token_ids'',
         HostNdarray (Tensor TF_int32 (Arr (map (\<lambda>v. Elem (I v)) row)))),
        (''decoder_padding_mask'',
         HostNdarray (Tensor TF_bool (Arr (map (\<lambda>v. Elem (B v)) mrow))))])"
    by (simp add: normalize_generate_outputs_def output_dicts_def normalize_output_single
          tf_squeeze_axis0_def bind_def tensor_of_ints_def tensor_of_bools_def)
  show "normalize_generate_outputs [OutDict d] False =
     Inr (HostDict
       [(''decoder_token_ids'',
         HostNdarray (tensor_of_ints (generate_outputs.decoder_token_ids d))),
        (''decoder_padding_mask'',
         HostNdarray (tensor_of_bools (generate_outputs.decoder_padding_mask d)))])"
    by (simp add: normalize_generate_outputs_def output_dicts_def normalize_output_single
          bind_def tensor_of_ints_def tensor_of_bools_def)
next
  assume "tf_convert_to_tensor (PyList ys) = Inr t"
  then have "normalize_input (PyList ys) = Inr (PyTensor t, False)"
    by (rule normalize_input_list)
  then show "normalize_generate_inputs (PyList ys) = Inr ([PyTensor t], False)"
    by (simp add: normalize_generate_inputs_def)
next
  assume a: "preprocessor self = Some pp \<and>
     generate_preprocess pp (PyTensor (Tensor TF_string (Arr [Elem (S s)]))) max_length
       = Inr x \<and>
     generate_step self x (end_token_id pp) = Inr out \<and>
     generate_postprocess pp out = Inr (Tensor TF_string (Arr [Elem (S r)]))"
  have n: "normalize_generate_inputs (PyStr s) =
     Inr ([PyTensor (Tensor TF_string (Arr [Elem (S s)]))], True)"
    by (simp add: normalize_generate_inputs_def normalize_input_def)
  have o: "normalize_generate_outputs [OutTensor (Tensor TF_string (Arr [Elem (S r)]))] True =
      Inr (HostStr r)"
    by (simp add: normalize_generate_outputs_def output_tensors_def normalize_output_single
          tf_squeeze_axis0_def bind_def tensor_to_string_list_def)
  from a show "fst (generate self (PyStr s) max_length) = Inr (HostStr r)"
    by (simp add: generate_unfold n o bind_def)
next
  assume a: "preprocessor self = Some pp \<and>
     generate_preprocess pp (PyTensor (Tensor TF_string (Arr xs))) max_length = Inr x' \<and>
     generate_step self x' (end_token_id pp) = Inr out' \<and>
     generate_postprocess pp out' = Inr (Tensor TF_string rs)"
  have n: "normalize_generate_inputs (PyTensor (Tensor TF_string (Arr xs))) =
     Inr ([PyTensor (Tensor TF_string (Arr xs))], False)"
    by (simp add: normalize_generate_inputs_def normalize_input_def)
  have o: "normalize_generate_outputs [OutTensor (Tensor TF_string rs)] False =
      tensor_to_string_list (Tensor TF_string rs)"
    by (simp add: normalize_generate_outputs_def output_tensors_def normalize_output_single
          bind_def)
  from a show "fst (generate self (PyTensor (Tensor TF_string (Arr xs))) max_length) =
          tensor_to_string_list (Tensor TF_string rs)"
    by (simp add: generate_unfold n o bind_def)
qed

theorem scalar_input_scalar_output_witness:
  "tf_convert_to_tensor (PyList [PyStr ''hi'', PyStr ''ho'']) =
     Inr (Tensor TF_string (Arr [Elem (S ''hi''), Elem (S ''ho'')])) \<and>
   normalize_generate_inputs (PyList [PyStr ''hi'', PyStr ''ho'']) =
     Inr ([PyTensor (Tensor TF_string (Arr [Elem (S ''hi''), Elem (S ''ho'')]))], False) \<and>
   preprocessor toy_text_lm = Some toy_preprocessor \<and>
   generate_preprocess toy_preprocessor (PyTensor (Tensor TF_string (Arr [Elem (S ''hi'')])))
       None =
     Inr \<lparr>encoder_token_ids = [[3]], encoder_padding_mask = [[True]],
          generate_inputs.decoder_token_ids = [[3, 4, 0, 0]],
          generate_inputs.decoder_padding_mask = [[True, True, False, False]]\<rparr> \<and>
   generate_step toy_text_lm
       \<lparr>encoder_token_ids = [[3]], encoder_padding_mask = [[True]],
        generate_inputs.decoder_token_ids = [[3, 4, 0, 0]],
        generate_inputs.decoder_padding_mask = [[True, True, False, False]]\<rparr>
       (end_token_id toy_preprocessor) =
     Inr \<lparr>generate_outputs.decoder_token_ids = [[3, 4, 7, 7]],
          generate_outputs.decoder_padding_mask = [[True, True, True, False]]\<rparr> \<and>
   generate_postprocess toy_preprocessor
       \<lparr>generate_outputs.decoder_token_ids = [[3, 4, 7, 7]],
        generate_outputs.decoder_padding_mask = [[True, True, True, False]]\<rparr> =
     Inr (Tensor TF_string (Arr [Elem (S ''aazz'')])) \<and>
   fst (generate toy_text_lm (PyStr ''hi'') None) = Inr (HostStr ''aazz'') \<and>
   generate_preprocess toy_preprocessor
       (PyTensor (Tensor TF_string (Arr [Elem (S ''hi''), Elem (S ''ho'')]))) None =
     Inr \<lparr>encoder_token_ids = [[3], [3]], encoder_padding_mask = [[True], [True]],
          generate_inputs.decoder_token_ids = [[3, 4, 0, 0], [3, 4, 0, 0]],
          generate_inputs.decoder_padding_mask =
            [[True, True, False, False], [True, True, False, False]]\<rparr> \<and>
   generate_step toy_text_lm
       \<lparr>encoder_token_ids = [[3], [3]], encoder_padding_mask = [[True], [True]],
        generate_inputs.decoder_token_ids = [[3, 4, 0, 0], [3, 4, 0, 0]],
        generate_inputs.decoder_padding_mask =
          [[True, True, False, False], [True, True, False, False]]\<rparr>
       (end_token_id toy_preprocessor) =
     Inr \<lparr>generate_outputs.decoder_token_ids = [[3, 4, 7, 7], [3, 4, 7, 7]],
          generate_outputs.decoder_padding_mask =
            [[True, True, True, False], [True, True, True, False]]\<rparr> \<and>
   generate_postprocess toy_preprocessor
       \<lparr>generate_outputs.decoder_token_ids = [[3, 4, 7, 7], [3, 4, 7, 7]],
        generate_outputs.decoder_padding_mask =
          [[True, True, True, False], [True, True, True, False]]\<rparr> =
     Inr (Tensor TF_string (Arr [Elem (S ''aazz''), Elem (S ''aazz'')])) \<and>
   fst (generate toy_text_lm
          (PyTensor (Tensor TF_string (Arr [Elem (S ''hi''), Elem (S ''ho'')]))) None) =
     Inr (HostList [HostStr ''aazz'', HostStr ''aazz''])"
proof -
  let ?x1 = "\<lparr>encoder_token_ids = [[3]], encoder_padding_mask = [[True]],
          generate_inputs.decoder_token_ids = [[3, 4, 0, 0]],
          generate_inputs.decoder_padding_mask = [[True, True, False, False]]\<rparr>"
  let ?o1 = "\<lparr>generate_outputs.decoder_token_ids = [[3, 4, 7, 7]],
          generate_outputs.decoder_padding_mask = [[True, True, True, False]]\<rparr>"
  let ?x2 = "\<lparr>encoder_token_ids = [[3], [3]], encoder_padding_mask = [[True], [True]],
          generate_inputs.decoder_token_ids = [[3, 4, 0, 0], [3, 4, 0, 0]],
          generate_inputs.decoder_padding_mask =
            [[True, True, False, False], [True, True, False, False]]\<rparr>"
  let ?o2 = "\<lparr>generate_outputs.decoder_token_ids = [[3, 4, 7, 7], [3, 4, 7, 7]],
          generate_outputs.decoder_padding_mask =
            [[True, True, True, False], [True, True, True, False]]\<rparr>"
  note t = scalar_input_scalar_output
  have c: "tf_convert_to_tensor (PyList [PyStr ''hi'', PyStr ''ho'']) =
     Inr (Tensor TF_string (Arr [Elem (S ''hi''), Elem (S ''ho'')]))"
    by code_simp
  have l: "normalize_generate_inputs (PyList [PyStr ''hi'', PyStr ''ho'']) =
     Inr ([PyTensor (Tensor TF_string (Arr [Elem (S ''hi''), Elem (S ''ho'')]))], False)"
    using c
    by (rule t [THEN conjunct2, THEN conjunct2, THEN conjunct2, THEN conjunct2,
          THEN conjunct1, rule_format])
  have p: "preprocessor toy_text_lm = Some toy_preprocessor"
    by (simp add: toy_text_lm_def)
  have p1: "generate_preprocess toy_preprocessor
      (PyTensor (Tensor TF_string (Arr [Elem (S ''hi'')]))) None = Inr ?x1"
    by (simp add: toy_preprocessor_def)
  have g1: "generate_step toy_text_lm ?x1 (end_token_id toy_preprocessor) = Inr ?o1"
    by code_simp
  have q1: "generate_postprocess toy_preprocessor ?o1 =
      Inr (Tensor TF_string (Arr [Elem (S ''aazz'')]))"
    by (simp add: toy_preprocessor_def)
  have r1: "fst (generate toy_text_lm (PyStr ''hi'') None) = Inr (HostStr ''aazz'')"
    by (rule t [THEN conjunct2, THEN conjunct2, THEN conjunct2, THEN conjunct2,
          THEN conjunct2, THEN conjunct2, THEN conjunct2, THEN conjunct2, THEN conjunct2,
          THEN conjunct2, THEN conjunct2, THEN conjunct1, rule_format])
      (rule conjI [OF p conjI [OF p1 conjI [OF g1 q1]]])
  have p2: "generate_preprocess toy_preprocessor
      (PyTensor (Tensor TF_string (Arr [Elem (S ''hi''), Elem (S ''ho'')]))) None = Inr ?x2"
    by (simp add: toy_preprocessor_def)
  have g2: "generate_step toy_text_lm ?x2 (end_token_id toy_preprocessor) = Inr ?o2"
    by code_simp
  have q2: "generate_postprocess toy_preprocessor ?o2 =
      Inr (Tensor TF_string (Arr [Elem (S ''aazz''), Elem (S ''aazz'')]))"
    by (simp add: toy_preprocessor_def)
  have "fst (generate toy_text_lm
          (PyTensor (Tensor TF_string (Arr [Elem (S ''hi''), Elem (S ''ho'')]))) None) =
     tensor_to_string_list (Tensor TF_string (Arr [Elem (S ''aazz''), Elem (S ''aazz'')]))"
    by (rule t [THEN conjunct2, THEN conjunct2, THEN conjunct2, THEN conjunct2,
          THEN conjunct2, THEN conjunct2, THEN conjunct2, THEN conjunct2, THEN conjunct2,
          THEN conjunct2, THEN conjunct2, THEN conjunct2, rule_format])
      (rule conjI [OF p conjI [OF p2 conjI [OF g2 q2]]])
  then have r2: "fst (generate toy_text_lm
          (PyTensor (Tensor TF_string (Arr [Elem (S ''hi''), Elem (S ''ho'')]))) None) =
     Inr (HostList [HostStr ''aazz'', HostStr ''aazz''])"
    by (simp add: tensor_to_string_list_def)
  from c l p p1 g1 q1 r1 p2 g2 q2 r2 show ?thesis by (intro conjI)
qed

end
